theory Spec2Isabelle
  imports Complex_Main "HOL-Library.Char_ord" "HOL-Library.List_Lexorder" "HOL-Library.Product_Lexorder"
begin

section \<open>Tabular batches\<close>

text \<open>
  The three stages exchange pandas data frames. A frame is modelled by its column names
  and its rows, each row a list of cells in column order. A cell is a missing value
  (\<open>NaN\<close>, \<open>None\<close>, \<open>NaT\<close>), a number, a string or a timestamp. Numbers are exact
  rationals: rounding errors of binary floating point are outside the model.
\<close>

datatype cell = Null | Num rat | Str string | Date int

datatype error =
  KeyError string | TypeError | ValueError | AttributeError | ZeroDivisionError
  | FileNotFoundError | DatabaseError

record dataframe =
  columns :: "string list"
  rows :: "cell list list"

text \<open>
  Functions of pandas and of Python's string type that the scripts call and that are not
  part of the repository: \<open>pd.to_datetime\<close> on one value (\<open>None\<close>: the value does not
  parse and the call raises), \<open>pd.to_numeric(errors='coerce')\<close> on one value,
  \<open>str.strip\<close>, \<open>str.title\<close> and \<open>strftime('%Y-%m-%d')\<close>.
\<close>

record library =
  to_datetime :: "cell \<Rightarrow> cell option"
  to_numeric_coerce :: "cell \<Rightarrow> cell"
  str_strip :: "string \<Rightarrow> string"
  str_title :: "string \<Rightarrow> string"
  strftime :: "int \<Rightarrow> string"

fun col_pos :: "string list \<Rightarrow> string \<Rightarrow> nat option" where
  "col_pos [] c = None"
| "col_pos (x # xs) c = (if x = c then Some 0 else map_option Suc (col_pos xs c))"

definition has_column :: "dataframe \<Rightarrow> string \<Rightarrow> bool" where
  "has_column df c = (col_pos (columns df) c \<noteq> None)"

definition map_col :: "nat \<Rightarrow> (cell \<Rightarrow> cell) \<Rightarrow> cell list list \<Rightarrow> cell list list" where
  "map_col i f rs = map (\<lambda>r. r[i := f (r ! i)]) rs"

definition isnull :: "cell \<Rightarrow> bool" where
  "isnull c = (c = Null)"

definition is_num :: "cell \<Rightarrow> bool" where
  "is_num c = (case c of Num v \<Rightarrow> True | _ \<Rightarrow> False)"

definition is_str :: "cell \<Rightarrow> bool" where
  "is_str c = (case c of Str s \<Rightarrow> True | _ \<Rightarrow> False)"

definition is_date :: "cell \<Rightarrow> bool" where
  "is_date c = (case c of Date d \<Rightarrow> True | _ \<Rightarrow> False)"

text \<open>
  The dtype of a column is read off its cells: numeric when it holds a number and
  otherwise only numbers and missing values, datetime likewise, object in every other case.
  A column that holds missing values only is therefore an object column here, whereas
  pandas gives it the dtype \<open>float64\<close> when it reads it from a table.
\<close>

definition is_numeric_dtype :: "cell list \<Rightarrow> bool" where
  "is_numeric_dtype xs = (list_all (\<lambda>c. is_num c \<or> isnull c) xs \<and> list_ex is_num xs)"

definition is_datetime_dtype :: "cell list \<Rightarrow> bool" where
  "is_datetime_dtype xs = (list_all (\<lambda>c. is_date c \<or> isnull c) xs \<and> list_ex is_date xs)"

text \<open>
  Comparing a column with a number: a missing value compares false, a string or a
  timestamp raises \<open>TypeError\<close>.
\<close>

definition comparable :: "cell \<Rightarrow> bool" where
  "comparable c = (is_num c \<or> isnull c)"

definition cell_le :: "cell \<Rightarrow> rat option \<Rightarrow> bool" where
  "cell_le c b = (case (c, b) of (Num v, Some w) \<Rightarrow> v \<le> w | _ \<Rightarrow> False)"

definition cell_lt :: "cell \<Rightarrow> rat option \<Rightarrow> bool" where
  "cell_lt c b = (case (c, b) of (Num v, Some w) \<Rightarrow> v < w | _ \<Rightarrow> False)"

definition cell_ge :: "cell \<Rightarrow> rat option \<Rightarrow> bool" where
  "cell_ge c b = (case (c, b) of (Num v, Some w) \<Rightarrow> w \<le> v | _ \<Rightarrow> False)"

definition cell_gt :: "cell \<Rightarrow> rat option \<Rightarrow> bool" where
  "cell_gt c b = (case (c, b) of (Num v, Some w) \<Rightarrow> w < v | _ \<Rightarrow> False)"

text \<open>Float arithmetic with \<open>NaN\<close> (\<open>None\<close>) propagating.\<close>

definition fsub :: "rat option \<Rightarrow> rat option \<Rightarrow> rat option" where
  "fsub a b = (case (a, b) of (Some x, Some y) \<Rightarrow> Some (x - y) | _ \<Rightarrow> None)"

definition fadd :: "rat option \<Rightarrow> rat option \<Rightarrow> rat option" where
  "fadd a b = (case (a, b) of (Some x, Some y) \<Rightarrow> Some (x + y) | _ \<Rightarrow> None)"

definition fscale :: "rat \<Rightarrow> rat option \<Rightarrow> rat option" where
  "fscale k a = map_option (\<lambda>x. k * x) a"

fun numbers :: "cell list \<Rightarrow> rat list" where
  "numbers [] = []"
| "numbers (Num v # cs) = v # numbers cs"
| "numbers (c # cs) = numbers cs"

text \<open>
  \<open>Series.quantile(q)\<close>: missing values are skipped, the rest is sorted and the value at
  position \<open>q * (n - 1)\<close> is interpolated linearly between its two neighbours; \<open>NaN\<close> when
  nothing is left.
\<close>

definition quantile :: "rat list \<Rightarrow> rat \<Rightarrow> rat option" where
  "quantile vs q =
     (if vs = [] then None
      else let s = sort vs;
               pos = q * of_nat (length s - 1);
               j = nat \<lfloor>pos\<rfloor>;
               g = pos - of_int \<lfloor>pos\<rfloor>
           in Some (if j + 1 < length s then s ! j + g * (s ! (j + 1) - s ! j) else s ! j))"

section \<open>Cleaning (\<open>scripts/transform_data.py\<close>, \<open>clean_data\<close>)\<close>

fun to_datetime_rows :: "(cell \<Rightarrow> cell option) \<Rightarrow> nat \<Rightarrow> cell list list \<Rightarrow> cell list list option" where
  "to_datetime_rows td i [] = Some []"
| "to_datetime_rows td i (r # rs) =
     (case td (r ! i) of
        None \<Rightarrow> None
      | Some d \<Rightarrow> map_option ((#) (r[i := d])) (to_datetime_rows td i rs))"

text \<open>Step 1: \<open>df_clean['fecha'] = pd.to_datetime(df_clean['fecha'])\<close>.\<close>

definition convert_fecha :: "library \<Rightarrow> dataframe \<Rightarrow> error + dataframe" where
  "convert_fecha L df =
     (case col_pos (columns df) ''fecha'' of
        None \<Rightarrow> Inl (KeyError ''fecha'')
      | Some i \<Rightarrow>
          (case to_datetime_rows (to_datetime L) i (rows df) of
             None \<Rightarrow> Inl ValueError
           | Some rs \<Rightarrow> Inr (df\<lparr>rows := rs\<rparr>)))"

text \<open>
  Step 2: \<open>duplicated().sum()\<close> counts the rows equal to an earlier row, and
  \<open>drop_duplicates()\<close> keeps the first row of each kind.
\<close>

fun count_duplicated :: "'a list \<Rightarrow> 'a list \<Rightarrow> nat" where
  "count_duplicated seen [] = 0"
| "count_duplicated seen (x # xs) =
     (if x \<in> set seen then Suc (count_duplicated seen xs) else count_duplicated (x # seen) xs)"

fun drop_duplicates :: "'a list \<Rightarrow> 'a list \<Rightarrow> 'a list" where
  "drop_duplicates seen [] = []"
| "drop_duplicates seen (x # xs) =
     (if x \<in> set seen then drop_duplicates seen xs else x # drop_duplicates (x # seen) xs)"

definition remove_duplicates :: "dataframe \<Rightarrow> dataframe \<times> nat" where
  "remove_duplicates df =
     (let duplicates = count_duplicated [] (rows df)
      in (if duplicates > 0 then df\<lparr>rows := drop_duplicates [] (rows df)\<rparr> else df, duplicates))"

text \<open>Step 3, first half: missing \<open>descuento\<close> becomes 0 when the column exists.\<close>

definition fillna0 :: "cell \<Rightarrow> cell" where
  "fillna0 c = (if isnull c then Num 0 else c)"

definition fill_descuento :: "dataframe \<Rightarrow> dataframe" where
  "fill_descuento df =
     (case col_pos (columns df) ''descuento'' of
        None \<Rightarrow> df
      | Some i \<Rightarrow>
          (let null_discounts = length (filter (\<lambda>r. isnull (r ! i)) (rows df))
           in if null_discounts > 0 then df\<lparr>rows := map_col i fillna0 (rows df)\<rparr> else df))"

text \<open>
  Step 3, second half: rows with a missing value in a critical column are dropped.
  Selecting the critical columns raises \<open>KeyError\<close> when one of them is absent.
\<close>

definition critical_columns :: "string list" where
  "critical_columns = [''fecha'', ''producto'', ''cantidad'', ''precio_unitario'']"

fun positions :: "string list \<Rightarrow> string list \<Rightarrow> error + nat list" where
  "positions cols [] = Inr []"
| "positions cols (c # cs) =
     (case col_pos cols c of
        None \<Rightarrow> Inl (KeyError c)
      | Some i \<Rightarrow> (case positions cols cs of Inl e \<Rightarrow> Inl e | Inr is \<Rightarrow> Inr (i # is)))"

definition any_null :: "nat list \<Rightarrow> cell list \<Rightarrow> bool" where
  "any_null is r = list_ex (\<lambda>i. isnull (r ! i)) is"

definition drop_null_critical :: "dataframe \<Rightarrow> error + dataframe \<times> nat" where
  "drop_null_critical df =
     (case positions (columns df) critical_columns of
        Inl e \<Rightarrow> Inl e
      | Inr is \<Rightarrow>
          (let null_critical = length (filter (any_null is) (rows df))
           in Inr (if null_critical > 0
                   then df\<lparr>rows := filter (\<lambda>r. \<not> any_null is r) (rows df)\<rparr>
                   else df, null_critical)))"

text \<open>
  Step 4: rows whose \<open>cantidad\<close>, then rows whose \<open>precio_unitario\<close>, is not positive are
  dropped; the count is the sum of the mask \<open>df[col] <= 0\<close>, the rows kept are those of the
  mask \<open>df[col] > 0\<close>.
\<close>

definition drop_not_positive :: "string \<Rightarrow> dataframe \<Rightarrow> error + dataframe \<times> nat" where
  "drop_not_positive c df =
     (case col_pos (columns df) c of
        None \<Rightarrow> Inl (KeyError c)
      | Some i \<Rightarrow>
          if \<not> list_all (\<lambda>r. comparable (r ! i)) (rows df) then Inl TypeError
          else
            (let invalid = length (filter (\<lambda>r. cell_le (r ! i) (Some 0)) (rows df))
             in Inr (if invalid > 0
                     then df\<lparr>rows := filter (\<lambda>r. cell_gt (r ! i) (Some 0)) (rows df)\<rparr>
                     else df, invalid)))"

text \<open>
  Step 5, the local function \<open>remove_outliers(df, column)\<close>: the count is the sum of the
  mask \<open>(x < lower) | (x > upper)\<close>, the rows kept are those of the mask
  \<open>(x >= lower) & (x <= upper)\<close>.
\<close>

definition outlier_bounds :: "cell list \<Rightarrow> rat option \<times> rat option" where
  "outlier_bounds xs =
     (let Q1 = quantile (numbers xs) (1 / 4);
          Q3 = quantile (numbers xs) (3 / 4);
          IQR = fsub Q3 Q1;
          lower_bound = fsub Q1 (fscale 3 IQR);
          upper_bound = fadd Q3 (fscale 3 IQR)
      in (lower_bound, upper_bound))"

definition remove_outliers :: "dataframe \<Rightarrow> string \<Rightarrow> error + dataframe \<times> nat" where
  "remove_outliers df column =
     (case col_pos (columns df) column of
        None \<Rightarrow> Inl (KeyError column)
      | Some i \<Rightarrow>
          if \<not> list_all (\<lambda>r. comparable (r ! i)) (rows df) then Inl TypeError
          else
            (let (lower_bound, upper_bound) = outlier_bounds (map (\<lambda>r. r ! i) (rows df));
                 outliers = length (filter (\<lambda>r. cell_lt (r ! i) lower_bound \<or> cell_gt (r ! i) upper_bound) (rows df));
                 df_filtered = df\<lparr>rows := filter (\<lambda>r. cell_ge (r ! i) lower_bound \<and> cell_le (r ! i) upper_bound) (rows df)\<rparr>
             in Inr (df_filtered, outliers)))"

text \<open>
  Step 6: \<open>df[col].str.strip().str.title()\<close> on each text column that exists. The
  \<open>.str\<close> accessor raises \<open>AttributeError\<close> on a numeric or datetime column; in an object
  column a value that is not a string becomes missing. A text column without a single
  value counts as an object column (see the dtype above): the model returns on it, where
  the code raises \<open>AttributeError\<close> if pandas holds that column as \<open>float64\<close>.
\<close>

definition strip_title :: "library \<Rightarrow> cell \<Rightarrow> cell" where
  "strip_title L c = (case c of Str s \<Rightarrow> Str (str_title L (str_strip L s)) | _ \<Rightarrow> Null)"

fun normalize_text :: "library \<Rightarrow> string list \<Rightarrow> dataframe \<Rightarrow> error + dataframe" where
  "normalize_text L [] df = Inr df"
| "normalize_text L (c # cs) df =
     (case col_pos (columns df) c of
        None \<Rightarrow> normalize_text L cs df
      | Some i \<Rightarrow>
          if is_numeric_dtype (map (\<lambda>r. r ! i) (rows df)) \<or> is_datetime_dtype (map (\<lambda>r. r ! i) (rows df))
          then Inl AttributeError
          else normalize_text L cs (df\<lparr>rows := map_col i (strip_title L) (rows df)\<rparr>))"

definition text_columns :: "string list" where
  "text_columns = [''producto'', ''categoria'', ''region'']"

text \<open>
  The function returns the cleaned frame only and logs the number of rows each step
  removed; the model returns those numbers with the frame. When \<open>total_venta\<close> is absent the
  outlier step is skipped and removes nothing. The closing log line computes
  \<open>rows_removed / initial_rows\<close>, which raises \<open>ZeroDivisionError\<close> on a batch without rows.
\<close>

record clean_result =
  cleaned :: dataframe
  duplicates_removed :: nat
  nulls_removed :: nat
  invalid_qty_removed :: nat
  invalid_price_removed :: nat
  outliers_removed :: nat

text \<open>Steps 1 to 4: the batch as it stands before the outlier filter.\<close>

definition before_outliers :: "library \<Rightarrow> dataframe \<Rightarrow> error + dataframe \<times> nat \<times> nat \<times> nat \<times> nat" where
  "before_outliers L df =
     (case convert_fecha L df of
        Inl e \<Rightarrow> Inl e
      | Inr df1 \<Rightarrow>
          (let (df2, duplicates) = remove_duplicates df1;
               df3 = fill_descuento df2
           in case drop_null_critical df3 of
                Inl e \<Rightarrow> Inl e
              | Inr (df4, null_critical) \<Rightarrow>
                  (case drop_not_positive ''cantidad'' df4 of
                     Inl e \<Rightarrow> Inl e
                   | Inr (df5, invalid_qty) \<Rightarrow>
                       (case drop_not_positive ''precio_unitario'' df5 of
                          Inl e \<Rightarrow> Inl e
                        | Inr (df6, invalid_price) \<Rightarrow>
                            Inr (df6, duplicates, null_critical, invalid_qty, invalid_price)))))"

definition filter_outliers :: "dataframe \<Rightarrow> error + dataframe \<times> nat" where
  "filter_outliers df =
     (if has_column df ''total_venta'' then remove_outliers df ''total_venta'' else Inr (df, 0))"

definition clean_data :: "library \<Rightarrow> dataframe \<Rightarrow> error + clean_result" where
  "clean_data L df =
     (case before_outliers L df of
        Inl e \<Rightarrow> Inl e
      | Inr (df6, duplicates, null_critical, invalid_qty, invalid_price) \<Rightarrow>
          (case filter_outliers df6 of
             Inl e \<Rightarrow> Inl e
           | Inr (df7, outliers) \<Rightarrow>
               (case normalize_text L text_columns df7 of
                  Inl e \<Rightarrow> Inl e
                | Inr df8 \<Rightarrow>
                    if rows df = [] then Inl ZeroDivisionError
                    else Inr \<lparr>cleaned = df8, duplicates_removed = duplicates,
                              nulls_removed = null_critical, invalid_qty_removed = invalid_qty,
                              invalid_price_removed = invalid_price, outliers_removed = outliers\<rparr>)))"

section \<open>Aggregation (\<open>scripts/transform_data.py\<close>, \<open>aggregate_data\<close>)\<close>

definition group_columns :: "string list" where
  "group_columns = [''fecha'', ''producto'', ''categoria'', ''region'']"

definition value_columns :: "string list" where
  "value_columns = [''cantidad'', ''precio_unitario'', ''descuento'', ''total_venta'', ''id'']"

definition aggregated_columns :: "string list" where
  "aggregated_columns =
     [''fecha'', ''producto'', ''categoria'', ''region'', ''cantidad_total'', ''precio_promedio'',
      ''descuento_promedio'', ''total_venta'', ''num_transacciones'']"

text \<open>
  \<open>groupby\<close> with its defaults: a row with a missing value in a key column belongs to no
  group (\<open>dropna=True\<close>), and the groups come sorted by key (\<open>sort=True\<close>). Keys are compared
  column by column; within a column timestamps, numbers and strings are each in their own
  order.
\<close>

definition cell_key :: "cell \<Rightarrow> nat \<times> rat \<times> string \<times> int" where
  "cell_key c =
     (case c of Date t \<Rightarrow> (0, 0, [], t) | Num v \<Rightarrow> (1, v, [], 0)
      | Str s \<Rightarrow> (2, 0, s, 0) | Null \<Rightarrow> (3, 0, [], 0))"

definition key_of :: "nat list \<Rightarrow> cell list \<Rightarrow> cell list" where
  "key_of ks r = map (\<lambda>k. r ! k) ks"

definition group_keys :: "nat list \<Rightarrow> cell list list \<Rightarrow> cell list list" where
  "group_keys ks rs =
     sort_key (map cell_key) (remdups (map (key_of ks) (filter (\<lambda>r. \<not> any_null ks r) rs)))"

definition group_rows :: "nat list \<Rightarrow> cell list list \<Rightarrow> cell list \<Rightarrow> cell list list" where
  "group_rows ks rs key = filter (\<lambda>r. key_of ks r = key) rs"

text \<open>
  The reductions skip missing values: \<open>sum\<close> adds the numbers of the group, \<open>mean\<close> is their
  average and \<open>NaN\<close> when there is none, \<open>count\<close> is the number of values that are not
  missing. Sums are exact and unbounded: the rounding of a \<open>float64\<close> sum and the wrap-around
  of an \<open>int64\<close> sum are outside the model. The reductions are defined on numbers and missing
  values; \<open>aggregate_data\<close> below reports a string or a timestamp in a summed or averaged
  column as \<open>TypeError\<close>, also for a column of strings only, which pandas concatenates under
  \<open>sum\<close>.
\<close>

definition agg_sum :: "cell list \<Rightarrow> cell" where
  "agg_sum xs = Num (sum_list (numbers xs))"

definition agg_mean :: "cell list \<Rightarrow> cell" where
  "agg_mean xs =
     (if numbers xs = [] then Null else Num (sum_list (numbers xs) / of_nat (length (numbers xs))))"

definition agg_count :: "cell list \<Rightarrow> cell" where
  "agg_count xs = Num (of_nat (length (filter (\<lambda>c. \<not> isnull c) xs)))"

text \<open>
  \<open>Series.round(k)\<close>: to \<open>k\<close> decimals, a tie going to the even neighbour. The model rounds
  the exact value. The code rounds the \<open>float64\<close> that stands for it, which may lie on the
  other side of a tie: the exact 1.015 rounds to 1.02, its \<open>float64\<close> to 1.01.
\<close>

definition round_half_even :: "rat \<Rightarrow> int" where
  "round_half_even x =
     (let f = \<lfloor>x\<rfloor>; d = x - of_int f
      in if d < 1 / 2 then f else if 1 / 2 < d then f + 1 else if even f then f else f + 1)"

definition round_to :: "nat \<Rightarrow> rat \<Rightarrow> rat" where
  "round_to k x = of_int (round_half_even (x * 10 ^ k)) / 10 ^ k"

definition round_cell :: "nat \<Rightarrow> cell \<Rightarrow> cell" where
  "round_cell k c = (case c of Num v \<Rightarrow> Num (round_to k v) | _ \<Rightarrow> c)"

text \<open>
  One output row per group: the key, then \<open>cantidad_total\<close>, \<open>precio_promedio\<close>,
  \<open>descuento_promedio\<close>, \<open>total_venta\<close> and \<open>num_transacciones\<close>, the averages and the
  total rounded after the reduction.
\<close>

definition aggregate_group :: "nat list \<Rightarrow> nat list \<Rightarrow> cell list list \<Rightarrow> cell list \<Rightarrow> cell list" where
  "aggregate_group ks vs rs key =
     (let g = group_rows ks rs key
      in key @ [agg_sum (map (\<lambda>r. r ! (vs ! 0)) g),
                round_cell 2 (agg_mean (map (\<lambda>r. r ! (vs ! 1)) g)),
                round_cell 4 (agg_mean (map (\<lambda>r. r ! (vs ! 2)) g)),
                round_cell 2 (agg_sum (map (\<lambda>r. r ! (vs ! 3)) g)),
                agg_count (map (\<lambda>r. r ! (vs ! 4)) g)])"

text \<open>
  \<open>aggregate_data(df)\<close>: \<open>KeyError\<close> when a key column or an aggregated column is absent,
  \<open>TypeError\<close> when a summed or averaged column holds a string or a timestamp. The closing
  log line computes \<open>len(df_aggregated) / len(df)\<close>, which raises \<open>ZeroDivisionError\<close> on a
  batch without rows.
\<close>

definition aggregate_data :: "dataframe \<Rightarrow> error + dataframe" where
  "aggregate_data df =
     (case positions (columns df) group_columns of
        Inl e \<Rightarrow> Inl e
      | Inr ks \<Rightarrow>
          (case positions (columns df) value_columns of
             Inl e \<Rightarrow> Inl e
           | Inr vs \<Rightarrow>
               if \<not> list_all (\<lambda>r. list_all (\<lambda>v. comparable (r ! v)) (take 4 vs)) (rows df)
               then Inl TypeError
               else if rows df = [] then Inl ZeroDivisionError
               else Inr \<lparr>columns = aggregated_columns,
                         rows = map (aggregate_group ks vs (rows df)) (group_keys ks (rows df))\<rparr>))"

section \<open>Validation of an extracted batch (\<open>scripts/extract_data.py\<close>)\<close>

definition df_empty :: "dataframe \<Rightarrow> bool" where
  "df_empty df = (rows df = [] \<or> columns df = [])"

definition missing_columns :: "string list \<Rightarrow> dataframe \<Rightarrow> string list" where
  "missing_columns required df = filter (\<lambda>c. \<not> has_column df c) required"

definition extract_required_columns :: "string list" where
  "extract_required_columns =
     [''id'', ''fecha'', ''producto'', ''cantidad'', ''precio_unitario'', ''total_venta'']"

definition extract_numeric_columns :: "string list" where
  "extract_numeric_columns = [''cantidad'', ''precio_unitario'', ''total_venta'']"

text \<open>
  Check 4 of \<open>validate_extracted_data\<close>: each declared numeric column that exists and is
  not of numeric dtype is replaced by \<open>pd.to_numeric(df[col], errors='coerce')\<close> and
  \<open>True\<close> is appended. With \<open>errors='coerce'\<close> the conversion turns what it cannot parse
  into \<open>NaN\<close> and does not raise, so the \<open>except\<close> branch that appends \<open>False\<close> is never
  taken.
\<close>

fun coerce_numeric_columns :: "library \<Rightarrow> string list \<Rightarrow> dataframe \<Rightarrow> bool list \<Rightarrow> dataframe \<times> bool list" where
  "coerce_numeric_columns L [] df validations = (df, validations)"
| "coerce_numeric_columns L (c # cs) df validations =
     (case col_pos (columns df) c of
        None \<Rightarrow> coerce_numeric_columns L cs df validations
      | Some i \<Rightarrow>
          if \<not> is_numeric_dtype (map (\<lambda>r. r ! i) (rows df))
          then coerce_numeric_columns L cs
                 (df\<lparr>rows := map_col i (to_numeric_coerce L) (rows df)\<rparr>) (validations @ [True])
          else coerce_numeric_columns L cs df validations)"

text \<open>
  \<open>validate_extracted_data(df)\<close> assigns to columns of the frame it is given; the model
  returns the verdict with the frame as the call leaves it. Check 3 is
  \<open>df['fecha'] = pd.to_datetime(df['fecha'])\<close> inside \<open>try\<close>: a missing column or a value
  that does not parse appends \<open>False\<close> and leaves the frame as it was.
\<close>

definition validate_extracted_data :: "library \<Rightarrow> dataframe \<Rightarrow> bool \<times> dataframe" where
  "validate_extracted_data L df =
     (let validations1 = [\<not> df_empty df];
          validations2 = validations1 @ [missing_columns extract_required_columns df = []];
          (df3, validations3) =
             (case convert_fecha L df of
                Inl e \<Rightarrow> (df, validations2 @ [False])
              | Inr d \<Rightarrow> (d, validations2 @ [True]));
          (df4, validations4) = coerce_numeric_columns L extract_numeric_columns df3 validations3
      in (list_all id validations4, df4))"







section \<open>Validation before the load (\<open>scripts/load_data.py\<close>)\<close>

definition load_required_columns :: "string list" where
  "load_required_columns =
     [''fecha'', ''producto'', ''categoria'', ''region'', ''cantidad_total'',
      ''precio_promedio'', ''total_venta'', ''num_transacciones'']"

definition load_critical_columns :: "string list" where
  "load_critical_columns = [''fecha'', ''producto'', ''total_venta'']"

definition load_numeric_columns :: "string list" where
  "load_numeric_columns = [''cantidad_total'', ''precio_promedio'', ''total_venta'', ''num_transacciones'']"

definition duplicate_subset :: "string list" where
  "duplicate_subset = [''fecha'', ''producto'', ''categoria'', ''region'']"

text \<open>\<open>(df[col] < 0).any()\<close>.\<close>

definition any_negative :: "cell list \<Rightarrow> error + bool" where
  "any_negative xs =
     (if \<not> list_all comparable xs then Inl TypeError
      else Inr (list_ex (\<lambda>c. cell_lt c (Some 0)) xs))"

fun check_negatives :: "string list \<Rightarrow> dataframe \<Rightarrow> bool list \<Rightarrow> error + bool list" where
  "check_negatives [] df validations = Inr validations"
| "check_negatives (c # cs) df validations =
     (case col_pos (columns df) c of
        None \<Rightarrow> check_negatives cs df validations
      | Some i \<Rightarrow>
          (case any_negative (map (\<lambda>r. r ! i) (rows df)) of
             Inl e \<Rightarrow> Inl e
           | Inr negative \<Rightarrow> check_negatives cs df (validations @ [\<not> negative])))"

definition null_count :: "nat list \<Rightarrow> cell list list \<Rightarrow> nat" where
  "null_count is rs = sum_list (map (\<lambda>i. length (filter (\<lambda>r. isnull (r ! i)) rs)) is)"

text \<open>
  \<open>validate_data_before_load(df)\<close> returns \<open>False\<close> at once on an empty frame. Selecting
  the critical columns, and the duplicate count over \<open>fecha, producto, categoria, region\<close>,
  raise \<open>KeyError\<close> when one of those columns is absent. The function assigns to nothing:
  the second component, the frame as the call leaves it, is the frame it was given.
\<close>

definition validate_data_before_load :: "dataframe \<Rightarrow> (error + bool) \<times> dataframe" where
  "validate_data_before_load df =
     (if df_empty df then (Inr False, df)
      else
        (let validations1 = [True];
             validations2 = validations1 @ [missing_columns load_required_columns df = []]
         in case positions (columns df) load_critical_columns of
              Inl e \<Rightarrow> (Inl e, df)
            | Inr is \<Rightarrow>
                (let validations3 = validations2 @ [\<not> null_count is (rows df) > 0]
                 in case check_negatives load_numeric_columns df validations3 of
                      Inl e \<Rightarrow> (Inl e, df)
                    | Inr validations4 \<Rightarrow>
                        (case positions (columns df) duplicate_subset of
                           Inl e \<Rightarrow> (Inl e, df)
                         | Inr ks \<Rightarrow> (Inr (list_all id validations4), df)))))"

section \<open>The store, the artefacts and the two stage entry points\<close>

text \<open>
  What outlives a call: the tables of the SQLite database with their secondary indexes
  (table and column), and the CSV artefacts by path. An artefact is kept as the frame that
  \<open>pd.read_csv\<close> gives back. Failures of the database connection and of the file system are
  not modelled.
\<close>

record world =
  tables :: "string \<Rightarrow> dataframe option"
  indexes :: "(string \<times> string) set"
  files :: "string \<Rightarrow> dataframe option"

text \<open>The settings read from the environment.\<close>

record config =
  table_source :: string
  table_target :: string
  data_output_path :: string

definition path_join :: "string \<Rightarrow> string \<Rightarrow> string" where
  "path_join a b = (if a = [] then b else if last a = CHR ''/'' then a @ b else a @ ''/'' @ b)"

subsection \<open>\<open>extract\<close>\<close>

text \<open>
  \<open>extract_data_from_db()\<close> with its default arguments, as \<open>extract\<close> calls it: the whole
  source table. It logs \<open>df['fecha'].min()\<close>, which raises \<open>KeyError\<close> without that column.
\<close>

definition extract_data_from_db :: "config \<Rightarrow> world \<Rightarrow> error + dataframe" where
  "extract_data_from_db cfg w =
     (case tables w (table_source cfg) of
        None \<Rightarrow> Inl DatabaseError
      | Some df \<Rightarrow> if has_column df ''fecha'' then Inr df else Inl (KeyError ''fecha''))"

definition save_extracted_data :: "dataframe \<Rightarrow> string \<Rightarrow> string \<Rightarrow> world \<Rightarrow> world" where
  "save_extracted_data df output_path filename w =
     w\<lparr>files := (files w)(path_join output_path filename \<mapsto> df)\<rparr>"

text \<open>
  \<open>extract()\<close>, here \<open>extract_stage\<close>: the result is the path of the artefact or the error
  raised, with the world the call leaves. The summary computed after the write is logged
  and dropped.
\<close>

definition extract_stage :: "config \<Rightarrow> library \<Rightarrow> world \<Rightarrow> (error + string) \<times> world" where
  "extract_stage cfg L w =
     (case extract_data_from_db cfg w of
        Inl e \<Rightarrow> (Inl e, w)
      | Inr df \<Rightarrow>
          (let (is_valid, df') = validate_extracted_data L df
           in if \<not> is_valid then (Inl ValueError, w)
              else (Inr (path_join (data_output_path cfg) ''extracted_data.csv''),
                    save_extracted_data df' (data_output_path cfg) ''extracted_data.csv'' w)))"

subsection \<open>\<open>load\<close>\<close>

definition load_transformed_data :: "config \<Rightarrow> world \<Rightarrow> error + dataframe" where
  "load_transformed_data cfg w =
     (case files w (path_join (data_output_path cfg) ''transformed_data.csv'') of
        None \<Rightarrow> Inl FileNotFoundError
      | Some df \<Rightarrow> Inr df)"

text \<open>
  \<open>prepare_data_for_load\<close>, step 1: \<open>pd.to_datetime(df['fecha']).dt.strftime('%Y-%m-%d')\<close>
  when the column exists.
\<close>

definition format_fecha :: "library \<Rightarrow> cell \<Rightarrow> cell option" where
  "format_fecha L c =
     (case to_datetime L c of
        Some (Date t) \<Rightarrow> Some (Str (strftime L t))
      | Some Null \<Rightarrow> Some Null
      | _ \<Rightarrow> None)"

definition fecha_to_string :: "library \<Rightarrow> dataframe \<Rightarrow> error + dataframe" where
  "fecha_to_string L df =
     (case col_pos (columns df) ''fecha'' of
        None \<Rightarrow> Inr df
      | Some i \<Rightarrow>
          (case to_datetime_rows (format_fecha L) i (rows df) of
             None \<Rightarrow> Inl ValueError
           | Some rs \<Rightarrow> Inr (df\<lparr>rows := rs\<rparr>)))"

text \<open>Step 2: \<open>pd.to_numeric(errors='coerce')\<close> on each numeric column that exists.\<close>

definition prepare_numeric_columns :: "string list" where
  "prepare_numeric_columns =
     [''cantidad_total'', ''precio_promedio'', ''descuento_promedio'', ''total_venta'',
      ''num_transacciones'']"

fun to_numeric_columns :: "library \<Rightarrow> string list \<Rightarrow> dataframe \<Rightarrow> dataframe" where
  "to_numeric_columns L [] df = df"
| "to_numeric_columns L (c # cs) df =
     (case col_pos (columns df) c of
        None \<Rightarrow> to_numeric_columns L cs df
      | Some i \<Rightarrow> to_numeric_columns L cs (df\<lparr>rows := map_col i (to_numeric_coerce L) (rows df)\<rparr>))"

text \<open>Step 3: the columns \<open>Unnamed: 0\<close> and \<open>index\<close> are dropped when they exist.\<close>

definition drop_at :: "nat \<Rightarrow> 'a list \<Rightarrow> 'a list" where
  "drop_at i xs = take i xs @ drop (Suc i) xs"

fun drop_columns :: "string list \<Rightarrow> dataframe \<Rightarrow> dataframe" where
  "drop_columns [] df = df"
| "drop_columns (c # cs) df =
     (case col_pos (columns df) c of
        None \<Rightarrow> drop_columns cs df
      | Some i \<Rightarrow> drop_columns cs \<lparr>columns = drop_at i (columns df), rows = map (drop_at i) (rows df)\<rparr>)"

text \<open>
  Step 4: \<open>sort_values('fecha')\<close>, ascending with missing values last; \<open>KeyError\<close> without
  the column. The order among rows of equal \<open>fecha\<close> is taken to be the order they had;
  the default \<open>quicksort\<close> of pandas does not promise it.
\<close>

definition fecha_key :: "cell \<Rightarrow> nat \<times> string" where
  "fecha_key c = (case c of Str s \<Rightarrow> (0, s) | Null \<Rightarrow> (1, []) | _ \<Rightarrow> (0, []))"

definition sort_by_fecha :: "dataframe \<Rightarrow> error + dataframe" where
  "sort_by_fecha df =
     (case col_pos (columns df) ''fecha'' of
        None \<Rightarrow> Inl (KeyError ''fecha'')
      | Some i \<Rightarrow> Inr (df\<lparr>rows := sort_key (\<lambda>r. fecha_key (r ! i)) (rows df)\<rparr>))"

definition prepare_data_for_load :: "library \<Rightarrow> dataframe \<Rightarrow> error + dataframe" where
  "prepare_data_for_load L df =
     (case fecha_to_string L df of
        Inl e \<Rightarrow> Inl e
      | Inr df1 \<Rightarrow>
          sort_by_fecha (drop_columns [''Unnamed: 0'', ''index''] (to_numeric_columns L prepare_numeric_columns df1)))"

text \<open>
  \<open>backup_existing_data()\<close>: nothing without the target table; otherwise the table is
  copied to \<open><target>_backup_<timestamp>\<close>. When the copy fails, here because a table of
  that name exists, a warning is logged and the world stays as it is.
\<close>

definition backup_existing_data :: "config \<Rightarrow> string \<Rightarrow> world \<Rightarrow> world" where
  "backup_existing_data cfg now w =
     (case tables w (table_target cfg) of
        None \<Rightarrow> w
      | Some t \<Rightarrow>
          (let backup_table = table_target cfg @ ''_backup_'' @ now
           in if tables w backup_table \<noteq> None then w
              else w\<lparr>tables := (tables w)(backup_table \<mapsto> t)\<rparr>))"

text \<open>
  \<open>load_to_database(df, table_name, if_exists)\<close>, that is \<open>df.to_sql\<close>: \<open>replace\<close> drops the
  table with its indexes and creates it from the frame, \<open>append\<close> adds the rows to a table of
  the same columns, \<open>fail\<close> raises when the table exists. The number returned is \<open>len(df)\<close>.
\<close>

datatype if_exists = Replace | Append | Fail

definition load_to_database :: "dataframe \<Rightarrow> string \<Rightarrow> if_exists \<Rightarrow> world \<Rightarrow> (error + nat) \<times> world" where
  "load_to_database df table_name mode w =
     (case (tables w table_name, mode) of
        (Some t, Fail) \<Rightarrow> (Inl ValueError, w)
      | (Some t, Append) \<Rightarrow>
          if columns t = columns df
          then (Inr (length (rows df)), w\<lparr>tables := (tables w)(table_name \<mapsto> t\<lparr>rows := rows t @ rows df\<rparr>)\<rparr>)
          else (Inl DatabaseError, w)
      | (Some t, Replace) \<Rightarrow>
          (Inr (length (rows df)),
           w\<lparr>tables := (tables w)(table_name \<mapsto> df),
             indexes := {x \<in> indexes w. fst x \<noteq> table_name}\<rparr>)
      | (None, _) \<Rightarrow>
          (Inr (length (rows df)), w\<lparr>tables := (tables w)(table_name \<mapsto> df)\<rparr>))"

text \<open>
  \<open>create_indexes()\<close>: one index per key column, in order; the first statement that fails
  (the column is absent) ends the loop, which is logged and not raised.
\<close>

fun create_index_list :: "string \<Rightarrow> dataframe \<Rightarrow> string list \<Rightarrow> (string \<times> string) set \<Rightarrow> (string \<times> string) set" where
  "create_index_list table_name t [] ix = ix"
| "create_index_list table_name t (c # cs) ix =
     (if has_column t c then create_index_list table_name t cs (insert (table_name, c) ix) else ix)"

definition create_indexes :: "config \<Rightarrow> world \<Rightarrow> world" where
  "create_indexes cfg w =
     (case tables w (table_target cfg) of
        None \<Rightarrow> w
      | Some t \<Rightarrow> w\<lparr>indexes := create_index_list (table_target cfg) t duplicate_subset (indexes w)\<rparr>)"

text \<open>
  \<open>generate_load_statistics()\<close> reads the target table: the number of its rows and the sum
  of \<open>total_venta\<close>. The other entries (date range, top five products and regions, time
  stamp) are further read-only queries and are left out.
\<close>

record statistics =
  total_records :: nat
  total_sales :: rat

definition generate_load_statistics :: "config \<Rightarrow> world \<Rightarrow> error + statistics" where
  "generate_load_statistics cfg w =
     (case tables w (table_target cfg) of
        None \<Rightarrow> Inl DatabaseError
      | Some t \<Rightarrow>
          (case col_pos (columns t) ''total_venta'' of
             None \<Rightarrow> Inl DatabaseError
           | Some i \<Rightarrow>
               Inr \<lparr>total_records = length (rows t),
                    total_sales = sum_list (numbers (map (\<lambda>r. r ! i) (rows t)))\<rparr>))"

text \<open>
  \<open>load()\<close>: the statistics or the error raised, with the world the call leaves. \<open>now\<close> is
  the clock reading that names the backup.
\<close>

definition load :: "config \<Rightarrow> library \<Rightarrow> string \<Rightarrow> world \<Rightarrow> (error + statistics) \<times> world" where
  "load cfg L now w =
     (case load_transformed_data cfg w of
        Inl e \<Rightarrow> (Inl e, w)
      | Inr df \<Rightarrow>
          (case fst (validate_data_before_load df) of
             Inl e \<Rightarrow> (Inl e, w)
           | Inr False \<Rightarrow> (Inl ValueError, w)
           | Inr True \<Rightarrow>
               (case prepare_data_for_load L (snd (validate_data_before_load df)) of
                  Inl e \<Rightarrow> (Inl e, w)
                | Inr df_prepared \<Rightarrow>
                    (let w1 = backup_existing_data cfg now w
                     in case load_to_database df_prepared (table_target cfg) Replace w1 of
                          (Inl e, w2) \<Rightarrow> (Inl e, w2)
                        | (Inr records_loaded, w2) \<Rightarrow>
                            (let w3 = create_indexes cfg w2
                             in (generate_load_statistics cfg w3, w3))))))"

text \<open>The world after a \<open>load\<close> whose batch passed validation and was prepared as \<open>dfp\<close>.\<close>

definition after_load :: "config \<Rightarrow> string \<Rightarrow> dataframe \<Rightarrow> world \<Rightarrow> world" where
  "after_load cfg now dfp w =
     create_indexes cfg (snd (load_to_database dfp (table_target cfg) Replace (backup_existing_data cfg now w)))"

section \<open>A small library instance and sample batches\<close>

text \<open>
  An instance of the library functions, used to run the model on sample batches: dates are
  accepted in the form \<open>YYYY-MM-DD\<close> only and a timestamp is the day written as the number
  \<open>yyyymmdd\<close>; numbers are parsed from strings of decimal digits; stripping removes blanks
  and title-casing works on ASCII letters.
\<close>

definition digit_val :: "char \<Rightarrow> nat option" where
  "digit_val c = map_of (zip ''0123456789'' [0, 1, 2, 3, 4, 5, 6, 7, 8, 9]) c"

fun digits_val :: "nat \<Rightarrow> string \<Rightarrow> nat option" where
  "digits_val acc [] = Some acc"
| "digits_val acc (c # cs) =
     (case digit_val c of None \<Rightarrow> None | Some k \<Rightarrow> digits_val (10 * acc + k) cs)"

definition iso_date :: "string \<Rightarrow> int option" where
  "iso_date s =
     (if length s = 10 \<and> s ! 4 = CHR ''-'' \<and> s ! 7 = CHR ''-''
      then (case (digits_val 0 (take 4 s), digits_val 0 (take 2 (drop 5 s)), digits_val 0 (drop 8 s)) of
              (Some y, Some m, Some d) \<Rightarrow>
                if 1 \<le> m \<and> m \<le> 12 \<and> 1 \<le> d \<and> d \<le> 31 then Some (int (10000 * y + 100 * m + d)) else None
            | _ \<Rightarrow> None)
      else None)"

definition digit_char :: "nat \<Rightarrow> char" where
  "digit_char k = ''0123456789'' ! (k mod 10)"

definition iso_format :: "int \<Rightarrow> string" where
  "iso_format t =
     (let k = nat t; y = k div 10000; m = (k div 100) mod 100; d = k mod 100
      in [digit_char (y div 1000), digit_char (y div 100), digit_char (y div 10), digit_char y, CHR ''-'',
          digit_char (m div 10), digit_char m, CHR ''-'', digit_char (d div 10), digit_char d])"

definition lower_case :: string where
  "lower_case = ''abcdefghijklmnopqrstuvwxyz''"

definition upper_case :: string where
  "upper_case = ''ABCDEFGHIJKLMNOPQRSTUVWXYZ''"

definition ascii_strip :: "string \<Rightarrow> string" where
  "ascii_strip s = rev (dropWhile (\<lambda>c. c = CHR '' '') (rev (dropWhile (\<lambda>c. c = CHR '' '') s)))"

fun ascii_title :: "bool \<Rightarrow> string \<Rightarrow> string" where
  "ascii_title p [] = []"
| "ascii_title p (c # cs) =
     (case map_of (zip lower_case upper_case) c of
        Some u \<Rightarrow> (if p then c else u) # ascii_title True cs
      | None \<Rightarrow>
          (case map_of (zip upper_case lower_case) c of
             Some l \<Rightarrow> (if p then l else c) # ascii_title True cs
           | None \<Rightarrow> c # ascii_title False cs))"

definition demo_to_datetime :: "cell \<Rightarrow> cell option" where
  "demo_to_datetime c =
     (case c of Null \<Rightarrow> Some Null | Date t \<Rightarrow> Some (Date t)
      | Str s \<Rightarrow> map_option Date (iso_date s) | Num v \<Rightarrow> None)"

definition demo_to_numeric :: "cell \<Rightarrow> cell" where
  "demo_to_numeric c =
     (case c of Num v \<Rightarrow> Num v
      | Str s \<Rightarrow> (if s = [] then Null else case digits_val 0 s of Some k \<Rightarrow> Num (of_nat k) | None \<Rightarrow> Null)
      | _ \<Rightarrow> Null)"

definition demo_library :: library where
  "demo_library =
     \<lparr>to_datetime = demo_to_datetime, to_numeric_coerce = demo_to_numeric,
      str_strip = ascii_strip, str_title = ascii_title False, strftime = iso_format\<rparr>"

definition sales_columns :: "string list" where
  "sales_columns =
     [''id'', ''fecha'', ''producto'', ''categoria'', ''region'', ''cantidad'',
      ''precio_unitario'', ''descuento'', ''total_venta'']"

text \<open>Three sales with \<open>total_venta\<close> 100, 105 and 1000000.\<close>

definition outlier_scenario :: dataframe where
  "outlier_scenario =
     \<lparr>columns = sales_columns,
      rows = [[Num 1, Str ''2023-01-01'', Str ''laptop'', Str ''computadoras'', Str ''norte'', Num 1, Num 100, Num 0, Num 100],
              [Num 2, Str ''2023-01-02'', Str ''mouse'', Str ''accesorios'', Str ''sur'', Num 1, Num 105, Num 0, Num 105],
              [Num 3, Str ''2023-01-03'', Str ''monitor'', Str ''computadoras'', Str ''este'', Num 1, Num 1000000, Num 0, Num 1000000]]\<rparr>"

definition outlier_scenario_parsed :: dataframe where
  "outlier_scenario_parsed =
     \<lparr>columns = sales_columns,
      rows = [[Num 1, Date 20230101, Str ''laptop'', Str ''computadoras'', Str ''norte'', Num 1, Num 100, Num 0, Num 100],
              [Num 2, Date 20230102, Str ''mouse'', Str ''accesorios'', Str ''sur'', Num 1, Num 105, Num 0, Num 105],
              [Num 3, Date 20230103, Str ''monitor'', Str ''computadoras'', Str ''este'', Num 1, Num 1000000, Num 0, Num 1000000]]\<rparr>"

definition outlier_scenario_cleaned :: dataframe where
  "outlier_scenario_cleaned =
     \<lparr>columns = sales_columns,
      rows = [[Num 1, Date 20230101, Str ''Laptop'', Str ''Computadoras'', Str ''Norte'', Num 1, Num 100, Num 0, Num 100],
              [Num 2, Date 20230102, Str ''Mouse'', Str ''Accesorios'', Str ''Sur'', Num 1, Num 105, Num 0, Num 105],
              [Num 3, Date 20230103, Str ''Monitor'', Str ''Computadoras'', Str ''Este'', Num 1, Num 1000000, Num 0, Num 1000000]]\<rparr>"

text \<open>Three sales, the third without a \<open>total_venta\<close>.\<close>

definition missing_total_batch :: dataframe where
  "missing_total_batch =
     \<lparr>columns = sales_columns,
      rows = [[Num 1, Str ''2023-01-01'', Str ''laptop'', Str ''computadoras'', Str ''norte'', Num 1, Num 100, Num 0, Num 100],
              [Num 2, Str ''2023-01-02'', Str ''mouse'', Str ''accesorios'', Str ''sur'', Num 1, Num 105, Num 0, Num 105],
              [Num 3, Str ''2023-01-03'', Str ''monitor'', Str ''computadoras'', Str ''este'', Num 1, Num 110, Num 0, Null]]\<rparr>"

definition missing_total_cleaned :: dataframe where
  "missing_total_cleaned =
     \<lparr>columns = sales_columns,
      rows = [[Num 1, Date 20230101, Str ''Laptop'', Str ''Computadoras'', Str ''Norte'', Num 1, Num 100, Num 0, Num 100],
              [Num 2, Date 20230102, Str ''Mouse'', Str ''Accesorios'', Str ''Sur'', Num 1, Num 105, Num 0, Num 105]]\<rparr>"

text \<open>The batch of the extraction tests, and the frame its validation leaves.\<close>

definition extract_columns :: "string list" where
  "extract_columns = [''id'', ''fecha'', ''producto'', ''cantidad'', ''precio_unitario'', ''total_venta'']"

definition extract_sample :: dataframe where
  "extract_sample =
     \<lparr>columns = extract_columns,
      rows = [[Num 1, Str ''2023-01-01'', Str ''Laptop'', Num 1, Num 1000, Num 1000],
              [Num 2, Str ''2023-01-02'', Str ''Mouse'', Num 2, Num 25, Num 50],
              [Num 3, Str ''2023-01-03'', Str ''Teclado'', Num 3, Num 75, Num 225]]\<rparr>"

definition extract_sample_validated :: dataframe where
  "extract_sample_validated =
     \<lparr>columns = extract_columns,
      rows = [[Num 1, Date 20230101, Str ''Laptop'', Num 1, Num 1000, Num 1000],
              [Num 2, Date 20230102, Str ''Mouse'', Num 2, Num 25, Num 50],
              [Num 3, Date 20230103, Str ''Teclado'', Num 3, Num 75, Num 225]]\<rparr>"

text \<open>The same batch with a \<open>cantidad\<close> that is no number, and the frame its validation leaves.\<close>

definition not_numeric_batch :: dataframe where
  "not_numeric_batch =
     \<lparr>columns = extract_columns,
      rows = [[Num 1, Str ''2023-01-01'', Str ''Laptop'', Num 1, Num 1000, Num 1000],
              [Num 2, Str ''2023-01-02'', Str ''Mouse'', Str ''abc'', Num 25, Num 50],
              [Num 3, Str ''2023-01-03'', Str ''Teclado'', Num 3, Num 75, Num 225]]\<rparr>"

definition not_numeric_validated :: dataframe where
  "not_numeric_validated =
     \<lparr>columns = extract_columns,
      rows = [[Num 1, Date 20230101, Str ''Laptop'', Num 1, Num 1000, Num 1000],
              [Num 2, Date 20230102, Str ''Mouse'', Null, Num 25, Num 50],
              [Num 3, Date 20230103, Str ''Teclado'', Num 3, Num 75, Num 225]]\<rparr>"


text \<open>The same batch without rows, and without the column \<open>producto\<close>.\<close>

definition extract_no_rows :: dataframe where
  "extract_no_rows = \<lparr>columns = extract_columns, rows = []\<rparr>"

definition extract_no_producto :: dataframe where
  "extract_no_producto =
     \<lparr>columns = [''id'', ''fecha'', ''cantidad'', ''precio_unitario'', ''total_venta''],
      rows = [[Num 1, Str ''2023-01-01'', Num 1, Num 1000, Num 1000]]\<rparr>"

text \<open>The aggregated batch of the load tests and variants of it.\<close>

definition load_sample :: dataframe where
  "load_sample =
     \<lparr>columns = aggregated_columns,
      rows = [[Str ''2023-01-02'', Str ''Mouse'', Str ''Accesorios'', Str ''Sur'', Num 20, Num 25, Num (1 / 20), Num 475, Num 10],
              [Str ''2023-01-01'', Str ''Laptop'', Str ''Computadoras'', Str ''Norte'', Num 10, Num 1000, Num (1 / 10), Num 9000, Num 5],
              [Str ''2023-01-03'', Str ''Teclado'', Str ''Accesorios'', Str ''Este'', Num 30, Num 75, Num 0, Num 2250, Num 15]]\<rparr>"

definition load_sample_prepared :: dataframe where
  "load_sample_prepared =
     \<lparr>columns = aggregated_columns,
      rows = [[Str ''2023-01-01'', Str ''Laptop'', Str ''Computadoras'', Str ''Norte'', Num 10, Num 1000, Num (1 / 10), Num 9000, Num 5],
              [Str ''2023-01-02'', Str ''Mouse'', Str ''Accesorios'', Str ''Sur'', Num 20, Num 25, Num (1 / 20), Num 475, Num 10],
              [Str ''2023-01-03'', Str ''Teclado'', Str ''Accesorios'', Str ''Este'', Num 30, Num 75, Num 0, Num 2250, Num 15]]\<rparr>"

definition negative_discount_batch :: dataframe where
  "negative_discount_batch =
     \<lparr>columns = aggregated_columns,
      rows = [[Str ''2023-01-01'', Str ''Laptop'', Str ''Computadoras'', Str ''Norte'', Num 10, Num 1000, Num (- (1 / 10)), Num 9000, Num 5],
              [Str ''2023-01-02'', Str ''Mouse'', Str ''Accesorios'', Str ''Sur'', Num 20, Num 25, Num (1 / 20), Num 475, Num 10]]\<rparr>"

definition negative_quantity_batch :: dataframe where
  "negative_quantity_batch =
     \<lparr>columns = aggregated_columns,
      rows = [[Str ''2023-01-01'', Str ''Laptop'', Str ''Computadoras'', Str ''Norte'', Num 10, Num 1000, Num (1 / 10), Num 9000, Num 5],
              [Str ''2023-01-02'', Str ''Mouse'', Str ''Accesorios'', Str ''Sur'', Num (- 5), Num 25, Num (1 / 20), Num 475, Num 10]]\<rparr>"

definition aggregated_no_rows :: dataframe where
  "aggregated_no_rows = \<lparr>columns = aggregated_columns, rows = []\<rparr>"

definition aggregated_no_producto :: dataframe where
  "aggregated_no_producto =
     \<lparr>columns = [''fecha'', ''categoria'', ''region'', ''cantidad_total'', ''precio_promedio'',
                 ''descuento_promedio'', ''total_venta'', ''num_transacciones''],
      rows = [[Str ''2023-01-01'', Str ''Computadoras'', Str ''Norte'', Num 10, Num 1000, Num (1 / 10), Num 9000, Num 5]]\<rparr>"

text \<open>The default settings, and worlds that hold one source table or one aggregated artefact.\<close>

definition demo_config :: config where
  "demo_config =
     \<lparr>table_source = ''sales_data'', table_target = ''sales_transformed'',
      data_output_path = ''data/output''\<rparr>"

definition empty_world :: world where
  "empty_world = \<lparr>tables = Map.empty, indexes = {}, files = Map.empty\<rparr>"

definition source_world :: "dataframe \<Rightarrow> world" where
  "source_world df = empty_world\<lparr>tables := [''sales_data'' \<mapsto> df]\<rparr>"

definition artefact_world :: "dataframe \<Rightarrow> world" where
  "artefact_world df = empty_world\<lparr>files := [''data/output/transformed_data.csv'' \<mapsto> df]\<rparr>"

text \<open>A column of a batch holds a given value.\<close>

definition column_has :: "dataframe \<Rightarrow> string \<Rightarrow> cell \<Rightarrow> bool" where
  "column_has df c v =
     (case col_pos (columns df) c of None \<Rightarrow> False | Some i \<Rightarrow> list_ex (\<lambda>r. r ! i = v) (rows df))"

text \<open>The sum of the numbers of a column.\<close>

definition column_sum :: "dataframe \<Rightarrow> string \<Rightarrow> rat" where
  "column_sum df c =
     (case col_pos (columns df) c of None \<Rightarrow> 0 | Some i \<Rightarrow> sum_list (numbers (map (\<lambda>r. r ! i) (rows df))))"

text \<open>No row of a batch has a missing value in one of the given columns.\<close>

definition no_missing :: "dataframe \<Rightarrow> string list \<Rightarrow> bool" where
  "no_missing df cs =
     (case positions (columns df) cs of Inl e \<Rightarrow> False | Inr ks \<Rightarrow> list_all (\<lambda>r. \<not> any_null ks r) (rows df))"

text \<open>The rows of a batch that have a value in each of the given columns.\<close>

definition rows_with_keys :: "dataframe \<Rightarrow> string list \<Rightarrow> dataframe" where
  "rows_with_keys df cs =
     (case positions (columns df) cs of Inl e \<Rightarrow> df
      | Inr ks \<Rightarrow> df\<lparr>rows := filter (\<lambda>r. \<not> any_null ks r) (rows df)\<rparr>)"

text \<open>Two sales, the second without a \<open>region\<close>: the raw batch, the cleaned one and its rollup.\<close>

definition missing_region_batch :: dataframe where
  "missing_region_batch =
     \<lparr>columns = sales_columns,
      rows = [[Num 1, Str ''2023-01-01'', Str ''laptop'', Str ''computadoras'', Str ''norte'', Num 1, Num 100, Num 0, Num 100],
              [Num 2, Str ''2023-01-02'', Str ''mouse'', Str ''accesorios'', Null, Num 2, Num 100, Num 0, Num 200]]\<rparr>"

definition missing_region_cleaned :: dataframe where
  "missing_region_cleaned =
     \<lparr>columns = sales_columns,
      rows = [[Num 1, Date 20230101, Str ''Laptop'', Str ''Computadoras'', Str ''Norte'', Num 1, Num 100, Num 0, Num 100],
              [Num 2, Date 20230102, Str ''Mouse'', Str ''Accesorios'', Null, Num 2, Num 100, Num 0, Num 200]]\<rparr>"

definition missing_region_aggregated :: dataframe where
  "missing_region_aggregated =
     \<lparr>columns = aggregated_columns,
      rows = [[Date 20230101, Str ''Laptop'', Str ''Computadoras'', Str ''Norte'', Num 1, Num 100, Num 0, Num 100, Num 1]]\<rparr>"

text \<open>
  Three sales, two of them of one group and the second without an \<open>id\<close>: the raw batch, the
  cleaned one and its rollup.
\<close>

definition missing_id_batch :: dataframe where
  "missing_id_batch =
     \<lparr>columns = sales_columns,
      rows = [[Num 1, Str ''2023-01-01'', Str ''laptop'', Str ''computadoras'', Str ''norte'', Num 1, Num 100, Num 0, Num 100],
              [Null, Str ''2023-01-01'', Str ''laptop'', Str ''computadoras'', Str ''norte'', Num 2, Num 100, Num 0, Num 200],
              [Num 3, Str ''2023-01-02'', Str ''mouse'', Str ''accesorios'', Str ''sur'', Num 1, Num 150, Num 0, Num 150]]\<rparr>"

definition missing_id_cleaned :: dataframe where
  "missing_id_cleaned =
     \<lparr>columns = sales_columns,
      rows = [[Num 1, Date 20230101, Str ''Laptop'', Str ''Computadoras'', Str ''Norte'', Num 1, Num 100, Num 0, Num 100],
              [Null, Date 20230101, Str ''Laptop'', Str ''Computadoras'', Str ''Norte'', Num 2, Num 100, Num 0, Num 200],
              [Num 3, Date 20230102, Str ''Mouse'', Str ''Accesorios'', Str ''Sur'', Num 1, Num 150, Num 0, Num 150]]\<rparr>"

definition missing_id_aggregated :: dataframe where
  "missing_id_aggregated =
     \<lparr>columns = aggregated_columns,
      rows = [[Date 20230101, Str ''Laptop'', Str ''Computadoras'', Str ''Norte'', Num 3, Num 100, Num 0, Num 300, Num 1],
              [Date 20230102, Str ''Mouse'', Str ''Accesorios'', Str ''Sur'', Num 1, Num 150, Num 0, Num 150, Num 1]]\<rparr>"

text \<open>The rollup of the three sales of the outlier scenario, one group each.\<close>

definition outlier_scenario_aggregated :: dataframe where
  "outlier_scenario_aggregated =
     \<lparr>columns = aggregated_columns,
      rows = [[Date 20230101, Str ''Laptop'', Str ''Computadoras'', Str ''Norte'', Num 1, Num 100, Num 0, Num 100, Num 1],
              [Date 20230102, Str ''Mouse'', Str ''Accesorios'', Str ''Sur'', Num 1, Num 105, Num 0, Num 105, Num 1],
              [Date 20230103, Str ''Monitor'', Str ''Computadoras'', Str ''Este'', Num 1, Num 1000000, Num 0, Num 1000000, Num 1]]\<rparr>"

section \<open>Properties of the cleaning stage\<close>

lemma floor_rat_numeral_div [simp]: "\<lfloor>(numeral a :: rat) / numeral b\<rfloor> = numeral a div numeral b"
  using floor_divide_of_int_eq [of "numeral a" "numeral b", where ?'a = rat] by simp

lemma floor_rat_one_div [simp]: "\<lfloor>(1 :: rat) / numeral b\<rfloor> = 1 div numeral b"
  using floor_divide_of_int_eq [of 1 "numeral b", where ?'a = rat] by simp

lemma col_pos_inj: "col_pos cols a = Some i \<Longrightarrow> col_pos cols b = Some i \<Longrightarrow> a = b"
  by (induction cols arbitrary: i) (auto split: if_splits)

lemma to_datetime_rows_length: "to_datetime_rows td i rs = Some rs' \<Longrightarrow> length rs' = length rs"
  by (induction rs arbitrary: rs') (auto split: option.splits)

lemma convert_fecha_frame:
  assumes "convert_fecha L df = Inr df1"
  shows "columns df1 = columns df" and "length (rows df1) = length (rows df)"
  using assms by (auto simp: convert_fecha_def split: option.splits dest: to_datetime_rows_length)

lemma drop_duplicates_count: "length (drop_duplicates seen xs) + count_duplicated seen xs = length xs"
  by (induction xs arbitrary: seen) auto

lemma count_duplicated_0: "count_duplicated seen xs = 0 \<Longrightarrow> drop_duplicates seen xs = xs"
  by (induction xs arbitrary: seen) (auto split: if_splits)

lemma remove_duplicates_frame:
  assumes "remove_duplicates df = (df2, n)"
  shows "columns df2 = columns df" and "length (rows df2) + n = length (rows df)"
  using assms drop_duplicates_count [of "[]" "rows df"]
  by (auto simp: remove_duplicates_def Let_def split: if_splits)

lemma fill_descuento_frame:
  "columns (fill_descuento df) = columns df" "length (rows (fill_descuento df)) = length (rows df)"
  by (auto simp: fill_descuento_def Let_def map_col_def split: option.splits)

lemma positions_mem:
  "positions cols cs = Inr is \<Longrightarrow> c \<in> set cs \<Longrightarrow> col_pos cols c = Some i \<Longrightarrow> i \<in> set is"
  by (induction cs arbitrary: "is") (auto split: option.splits sum.splits)

lemma drop_null_critical_frame:
  assumes "drop_null_critical df = Inr (df4, n)"
  shows "columns df4 = columns df" and "length (rows df4) + n = length (rows df)"
    and "c \<in> set critical_columns \<Longrightarrow> col_pos (columns df) c = Some i \<Longrightarrow> r \<in> set (rows df4) \<Longrightarrow> \<not> isnull (r ! i)"
proof -
  from assms obtain "is" where ps: "positions (columns df) critical_columns = Inr is"
    by (auto simp: drop_null_critical_def split: sum.splits)
  let ?k = "length (filter (any_null is) (rows df))"
  have n: "n = ?k" and df4: "df4 = (if ?k > 0 then df\<lparr>rows := filter (\<lambda>r. \<not> any_null is r) (rows df)\<rparr> else df)"
    using assms ps by (auto simp: drop_null_critical_def Let_def)
  show "columns df4 = columns df" using df4 by simp
  have rows4: "rows df4 = filter (\<lambda>r. \<not> any_null is r) (rows df)"
  proof (cases "?k > 0")
    case True then show ?thesis using df4 by simp
  next
    case False
    then have "filter (any_null is) (rows df) = []" by simp
    then have "\<forall>r \<in> set (rows df). \<not> any_null is r" by (simp add: filter_empty_conv)
    then show ?thesis using df4 False by simp
  qed
  show "length (rows df4) + n = length (rows df)"
    using sum_length_filter_compl [of "any_null is" "rows df"] rows4 n by simp
  show "\<not> isnull (r ! i)" if "c \<in> set critical_columns" "col_pos (columns df) c = Some i" "r \<in> set (rows df4)"
  proof -
    have "i \<in> set is" using positions_mem [OF ps that(1) that(2)] .
    moreover have "\<not> any_null is r" using that(3) rows4 by simp
    ultimately show ?thesis by (auto simp: any_null_def list_ex_iff)
  qed
qed

lemma positive_masks:
  "comparable c \<Longrightarrow> \<not> isnull c \<Longrightarrow> cell_gt c (Some 0) = (\<not> cell_le c (Some 0))"
  by (cases c) (auto simp: comparable_def isnull_def is_num_def cell_gt_def cell_le_def)

lemma drop_not_positive_frame:
  assumes "drop_not_positive c df = Inr (df5, n)"
  shows "columns df5 = columns df" and "set (rows df5) \<subseteq> set (rows df)"
    and "col_pos (columns df) c = Some i \<Longrightarrow> \<forall>r \<in> set (rows df). \<not> isnull (r ! i) \<Longrightarrow>
         length (rows df5) + n = length (rows df)"
proof -
  from assms obtain j where j: "col_pos (columns df) c = Some j"
    by (auto simp: drop_not_positive_def split: option.splits)
  let ?bad = "\<lambda>r. cell_le (r ! j) (Some 0)"
  let ?good = "\<lambda>r. cell_gt (r ! j) (Some 0)"
  have cmp: "list_all (\<lambda>r. comparable (r ! j)) (rows df)"
    and n: "n = length (filter ?bad (rows df))"
    and df5: "df5 = (if n > 0 then df\<lparr>rows := filter ?good (rows df)\<rparr> else df)"
    using assms j by (auto simp: drop_not_positive_def Let_def split: if_splits)
  show "columns df5 = columns df" using df5 by simp
  show "set (rows df5) \<subseteq> set (rows df)" using df5 by auto
  show "length (rows df5) + n = length (rows df)"
    if "col_pos (columns df) c = Some i" "\<forall>r \<in> set (rows df). \<not> isnull (r ! i)"
  proof -
    have ij: "i = j" using that(1) j by simp
    have "filter ?good (rows df) = filter (\<lambda>r. \<not> ?bad r) (rows df)"
      using cmp that(2) ij by (intro filter_cong) (auto simp: list_all_iff positive_masks)
    then have "length (filter ?good (rows df)) + n = length (rows df)"
      using sum_length_filter_compl [of ?bad "rows df"] n by simp
    then show ?thesis using df5 by (cases "n > 0") auto
  qed
qed

lemma numbers_Num: "Num v \<in> set xs \<Longrightarrow> numbers xs \<noteq> []"
  by (induction xs rule: numbers.induct) auto

lemma quantile_Some: "vs \<noteq> [] \<Longrightarrow> \<exists>x. quantile vs q = Some x"
  by (simp add: quantile_def Let_def)

lemma outlier_bounds_Some:
  assumes "outlier_bounds xs = (Some l, u)"
  shows "\<exists>Q1 Q3. quantile (numbers xs) (1 / 4) = Some Q1 \<and> quantile (numbers xs) (3 / 4) = Some Q3
           \<and> l = Q1 - 3 * (Q3 - Q1) \<and> u = Some (Q3 + 3 * (Q3 - Q1))"
  using assms
  by (auto simp: outlier_bounds_def Let_def fsub_def fadd_def fscale_def split: option.splits)

lemma outlier_bounds_nonempty:
  assumes "numbers xs \<noteq> []"
  shows "\<exists>l u. outlier_bounds xs = (Some l, Some u)"
proof -
  obtain a where a: "quantile (numbers xs) (1 / 4) = Some a" using quantile_Some [OF assms] by blast
  obtain b where b: "quantile (numbers xs) (3 / 4) = Some b" using quantile_Some [OF assms] by blast
  show ?thesis using a b by (simp add: outlier_bounds_def Let_def fsub_def fadd_def fscale_def)
qed

lemma outlier_masks:
  "cell_ge (Num v) (Some l) \<and> cell_le (Num v) (Some u) \<longleftrightarrow> \<not> (cell_lt (Num v) (Some l) \<or> cell_gt (Num v) (Some u))"
  by (auto simp: cell_ge_def cell_le_def cell_lt_def cell_gt_def)

lemma remove_outliers_frame:
  assumes "remove_outliers df column = Inr (df7, n)" and "col_pos (columns df) column = Some i"
  shows "columns df7 = columns df"
    and "set (rows df7) \<subseteq> set (rows df)"
    and "r \<in> set (rows df7) \<Longrightarrow>
           \<exists>Q1 Q3 v. quantile (numbers (map (\<lambda>r. r ! i) (rows df))) (1 / 4) = Some Q1
             \<and> quantile (numbers (map (\<lambda>r. r ! i) (rows df))) (3 / 4) = Some Q3
             \<and> r ! i = Num v \<and> Q1 - 3 * (Q3 - Q1) \<le> v \<and> v \<le> Q3 + 3 * (Q3 - Q1)"
    and "\<forall>r \<in> set (rows df). \<not> isnull (r ! i) \<Longrightarrow> length (rows df7) + n = length (rows df)"
proof -
  let ?xs = "map (\<lambda>r. r ! i) (rows df)"
  obtain lo hi where b: "outlier_bounds ?xs = (lo, hi)" by (cases "outlier_bounds ?xs")
  let ?out = "\<lambda>r. cell_lt (r ! i) lo \<or> cell_gt (r ! i) hi"
  let ?in = "\<lambda>r. cell_ge (r ! i) lo \<and> cell_le (r ! i) hi"
  have cmp: "list_all (\<lambda>r. comparable (r ! i)) (rows df)"
    and n: "n = length (filter ?out (rows df))"
    and df7: "df7 = df\<lparr>rows := filter ?in (rows df)\<rparr>"
    using assms b by (auto simp: remove_outliers_def Let_def split: if_splits)
  show "columns df7 = columns df" using df7 by simp
  show "set (rows df7) \<subseteq> set (rows df)" using df7 by auto
  show "\<exists>Q1 Q3 v. quantile (numbers ?xs) (1 / 4) = Some Q1 \<and> quantile (numbers ?xs) (3 / 4) = Some Q3
             \<and> r ! i = Num v \<and> Q1 - 3 * (Q3 - Q1) \<le> v \<and> v \<le> Q3 + 3 * (Q3 - Q1)"
    if "r \<in> set (rows df7)"
  proof -
    have ge: "cell_ge (r ! i) lo" and le: "cell_le (r ! i) hi" using that df7 by auto
    from ge obtain v l where v: "r ! i = Num v" and l: "lo = Some l" and lv: "l \<le> v"
      by (auto simp: cell_ge_def split: cell.splits option.splits)
    from outlier_bounds_Some [of ?xs l hi] b l obtain Q1 Q3 where
      q: "quantile (numbers ?xs) (1 / 4) = Some Q1" "quantile (numbers ?xs) (3 / 4) = Some Q3"
         "l = Q1 - 3 * (Q3 - Q1)" "hi = Some (Q3 + 3 * (Q3 - Q1))"
      by auto
    have "v \<le> Q3 + 3 * (Q3 - Q1)" using le v q(4) by (simp add: cell_le_def)
    then show ?thesis using q v lv by auto
  qed
  show "length (rows df7) + n = length (rows df)" if nn: "\<forall>r \<in> set (rows df). \<not> isnull (r ! i)"
  proof (cases "rows df = []")
    case True
    then show ?thesis using n df7 by simp
  next
    case False
    have nums: "\<forall>r \<in> set (rows df). \<exists>v. r ! i = Num v"
    proof
      fix r assume "r \<in> set (rows df)"
      then have "comparable (r ! i)" "\<not> isnull (r ! i)" using cmp nn by (auto simp: list_all_iff)
      then show "\<exists>v. r ! i = Num v"
        by (cases "r ! i") (auto simp: comparable_def isnull_def is_num_def)
    qed
    from False obtain r0 where r0: "r0 \<in> set (rows df)" by (cases "rows df") auto
    then obtain v0 where "r0 ! i = Num v0" using nums by blast
    then have "Num v0 \<in> set ?xs" using r0 by force
    then have "numbers ?xs \<noteq> []" by (rule numbers_Num)
    then obtain l u where lu: "lo = Some l" "hi = Some u"
      using outlier_bounds_nonempty [of ?xs] b by auto
    have "filter ?in (rows df) = filter (\<lambda>r. \<not> ?out r) (rows df)"
    proof (intro filter_cong refl)
      fix r assume "r \<in> set (rows df)"
      then obtain v where "r ! i = Num v" using nums by blast
      then show "?in r = (\<not> ?out r)" using lu outlier_masks [of v l u] by simp
    qed
    then show ?thesis
      using sum_length_filter_compl [of ?out "rows df"] n df7 by simp
  qed
qed

lemma normalize_text_frame:
  assumes "normalize_text L cs df = Inr df8"
  shows "columns df8 = columns df \<and> length (rows df8) = length (rows df)
         \<and> (\<forall>c i. c \<notin> set cs \<longrightarrow> col_pos (columns df) c = Some i \<longrightarrow>
               map (\<lambda>r. r ! i) (rows df8) = map (\<lambda>r. r ! i) (rows df))"
  using assms
proof (induction cs arbitrary: df)
  case Nil
  then show ?case by simp
next
  case (Cons c cs)
  show ?case
  proof (cases "col_pos (columns df) c")
    case None
    then show ?thesis using Cons by auto
  next
    case (Some j)
    let ?df = "df\<lparr>rows := map_col j (strip_title L) (rows df)\<rparr>"
    from Cons.prems Some have step: "normalize_text L cs ?df = Inr df8"
      by (auto split: if_splits)
    note ih = Cons.IH [OF step]
    have keep: "map (\<lambda>r. r ! i) (rows ?df) = map (\<lambda>r. r ! i) (rows df)"
      if "col_pos (columns df) c' = Some i" "c' \<noteq> c" for c' i
    proof -
      have "i \<noteq> j" using col_pos_inj [OF that(1)] Some that(2) by auto
      then show ?thesis by (simp add: map_col_def)
    qed
    show ?thesis using ih keep by (auto simp: map_col_def)
  qed
qed

lemma before_outliers_parts:
  assumes "before_outliers L df = Inr (pre, d, n, q, p)"
  obtains df1 df2 df4 df5 where "convert_fecha L df = Inr df1"
    and "remove_duplicates df1 = (df2, d)"
    and "drop_null_critical (fill_descuento df2) = Inr (df4, n)"
    and "drop_not_positive ''cantidad'' df4 = Inr (df5, q)"
    and "drop_not_positive ''precio_unitario'' df5 = Inr (pre, p)"
  using assms unfolding before_outliers_def
  by (simp add: Let_def split: sum.splits prod.splits)

lemma before_outliers_frame:
  assumes "before_outliers L df = Inr (pre, d, n, q, p)"
  shows "columns pre = columns df" and "length (rows pre) + d + n + q + p = length (rows df)"
proof -
  from before_outliers_parts [OF assms] obtain df1 df2 df4 df5 where
    s1: "convert_fecha L df = Inr df1" and s2: "remove_duplicates df1 = (df2, d)"
    and s4: "drop_null_critical (fill_descuento df2) = Inr (df4, n)"
    and s5: "drop_not_positive ''cantidad'' df4 = Inr (df5, q)"
    and s6: "drop_not_positive ''precio_unitario'' df5 = Inr (pre, p)"
    by blast
  let ?df3 = "fill_descuento df2"
  have c3: "columns ?df3 = columns df"
    using convert_fecha_frame(1) [OF s1] remove_duplicates_frame(1) [OF s2] fill_descuento_frame(1) [of df2]
    by simp
  have c4: "columns df4 = columns ?df3" by (rule drop_null_critical_frame(1) [OF s4])
  have c5: "columns df5 = columns df4" by (rule drop_not_positive_frame(1) [OF s5])
  have c6: "columns pre = columns df5" by (rule drop_not_positive_frame(1) [OF s6])
  show "columns pre = columns df" using c3 c4 c5 c6 by simp
  have l1: "length (rows df1) = length (rows df)" by (rule convert_fecha_frame(2) [OF s1])
  have l2: "length (rows df2) + d = length (rows df1)" by (rule remove_duplicates_frame(2) [OF s2])
  have l3: "length (rows ?df3) = length (rows df2)" by (rule fill_descuento_frame(2))
  have l4: "length (rows df4) + n = length (rows ?df3)" by (rule drop_null_critical_frame(2) [OF s4])
  obtain iq where iq: "col_pos (columns df4) ''cantidad'' = Some iq"
    using s5 by (auto simp: drop_not_positive_def split: option.splits)
  obtain ip where ip: "col_pos (columns df5) ''precio_unitario'' = Some ip"
    using s6 by (auto simp: drop_not_positive_def split: option.splits)
  have nq: "\<forall>r \<in> set (rows df4). \<not> isnull (r ! iq)"
    using drop_null_critical_frame(3) [OF s4, of "''cantidad''" iq] iq c4
    by (simp add: critical_columns_def)
  have np: "\<forall>r \<in> set (rows df5). \<not> isnull (r ! ip)"
    using drop_null_critical_frame(3) [OF s4, of "''precio_unitario''" ip] ip c4 c5
      drop_not_positive_frame(2) [OF s5]
    by (auto simp: critical_columns_def)
  have l5: "length (rows df5) + q = length (rows df4)" by (rule drop_not_positive_frame(3) [OF s5 iq nq])
  have l6: "length (rows pre) + p = length (rows df5)" by (rule drop_not_positive_frame(3) [OF s6 ip np])
  show "length (rows pre) + d + n + q + p = length (rows df)"
    using l1 l2 l3 l4 l5 l6 by simp
qed

lemma clean_data_parts:
  assumes "clean_data L df = Inr res" and "before_outliers L df = Inr (pre, d, n, q, p)"
  obtains df7 where "filter_outliers pre = Inr (df7, outliers_removed res)"
    and "normalize_text L text_columns df7 = Inr (cleaned res)"
    and "duplicates_removed res = d" and "nulls_removed res = n"
    and "invalid_qty_removed res = q" and "invalid_price_removed res = p"
  using assms unfolding clean_data_def
  by (auto split: sum.splits prod.splits if_splits)

lemma conservation_without_null_total:
  assumes res: "clean_data L df = Inr res"
    and pre: "before_outliers L df = Inr (pre, d, n, q, p)"
    and nn: "\<And>i r. col_pos (columns df) ''total_venta'' = Some i \<Longrightarrow> r \<in> set (rows pre) \<Longrightarrow> \<not> isnull (r ! i)"
  shows "length (rows (cleaned res)) + duplicates_removed res + nulls_removed res
           + invalid_qty_removed res + invalid_price_removed res + outliers_removed res
         = length (rows df)"
proof -
  from clean_data_parts [OF res pre] obtain df7 where
    fo: "filter_outliers pre = Inr (df7, outliers_removed res)"
    and nt: "normalize_text L text_columns df7 = Inr (cleaned res)"
    and cnt: "duplicates_removed res = d" "nulls_removed res = n"
      "invalid_qty_removed res = q" "invalid_price_removed res = p"
    by blast
  have cols: "columns pre = columns df" by (rule before_outliers_frame(1) [OF pre])
  have l7: "length (rows df7) + outliers_removed res = length (rows pre)"
  proof (cases "col_pos (columns pre) ''total_venta''")
    case None
    then show ?thesis using fo by (simp add: filter_outliers_def has_column_def)
  next
    case (Some i)
    then have ro: "remove_outliers pre ''total_venta'' = Inr (df7, outliers_removed res)"
      using fo by (simp add: filter_outliers_def has_column_def)
    have "\<forall>r \<in> set (rows pre). \<not> isnull (r ! i)" using nn Some cols by simp
    then show ?thesis by (rule remove_outliers_frame(4) [OF ro Some])
  qed
  have l8: "length (rows (cleaned res)) = length (rows df7)"
    using normalize_text_frame [OF nt] by simp
  show ?thesis using before_outliers_frame(2) [OF pre] l7 l8 cnt by simp
qed

lemmas demo_defs = demo_library_def demo_to_datetime_def demo_to_numeric_def iso_date_def digit_val_def
  ascii_strip_def lower_case_def upper_case_def sales_columns_def

lemmas clean_defs = clean_data_def before_outliers_def convert_fecha_def remove_duplicates_def
  fill_descuento_def drop_null_critical_def critical_columns_def drop_not_positive_def any_null_def
  filter_outliers_def has_column_def remove_outliers_def outlier_bounds_def quantile_def
  text_columns_def strip_title_def map_col_def is_numeric_dtype_def is_datetime_dtype_def
  isnull_def is_num_def is_date_def comparable_def cell_le_def cell_lt_def cell_ge_def cell_gt_def
  fsub_def fadd_def fscale_def fillna0_def Let_def

lemma before_outliers_scenario:
  "before_outliers demo_library outlier_scenario = Inr (outlier_scenario_parsed, 0, 0, 0, 0)"
  by (simp add: outlier_scenario_def outlier_scenario_parsed_def demo_defs clean_defs)

lemma clean_data_scenario:
  "clean_data demo_library outlier_scenario =
     Inr \<lparr>cleaned = outlier_scenario_cleaned, duplicates_removed = 0, nulls_removed = 0,
          invalid_qty_removed = 0, invalid_price_removed = 0, outliers_removed = 0\<rparr>"
  by (simp add: outlier_scenario_def outlier_scenario_cleaned_def demo_defs clean_defs)

lemma total_venta_pos: "col_pos sales_columns ''total_venta'' = Some 8"
  by (simp add: sales_columns_def)

text \<open>
  Claim C1 (conservation of the cleaning stage): the rows of the cleaned batch and the rows
  counted as removed by the five steps add up to the rows of the raw batch. The code loses
  this on a row whose \<open>total_venta\<close> is missing: such a row survives the first four steps,
  the outlier step counts it in neither mask and its filter drops it. On the batch below
  three rows go in, two come out and every count is 0.
\<close>

theorem conservation_fails_on_missing_total_venta:
  "clean_data demo_library missing_total_batch =
     Inr \<lparr>cleaned = missing_total_cleaned, duplicates_removed = 0, nulls_removed = 0,
          invalid_qty_removed = 0, invalid_price_removed = 0, outliers_removed = 0\<rparr>
   \<and> length (rows missing_total_cleaned) = 2 \<and> length (rows missing_total_batch) = 3"
  by (simp add: missing_total_batch_def missing_total_cleaned_def demo_defs clean_defs)

text \<open>
  Claim C2 (outlier bound): when \<open>clean_data\<close> returns on a batch that has the column
  \<open>total_venta\<close>, every row of the cleaned batch holds a number \<open>v\<close> in that column with
  \<open>Q1 - 3 * IQR \<le> v \<le> Q3 + 3 * IQR\<close>, where \<open>Q1\<close> and \<open>Q3\<close> are the quantiles 0.25 and 0.75
  of \<open>total_venta\<close> over the batch as it stands before the outlier filter and
  \<open>IQR = Q3 - Q1\<close>.
\<close>

theorem outlier_bound:
  assumes res: "clean_data L df = Inr res"
    and pre: "before_outliers L df = Inr (pre, d, n, q, p)"
    and col: "col_pos (columns df) ''total_venta'' = Some i"
    and r: "r \<in> set (rows (cleaned res))"
  shows "\<exists>Q1 Q3 v. quantile (numbers (map (\<lambda>r. r ! i) (rows pre))) (1 / 4) = Some Q1
           \<and> quantile (numbers (map (\<lambda>r. r ! i) (rows pre))) (3 / 4) = Some Q3
           \<and> r ! i = Num v \<and> Q1 - 3 * (Q3 - Q1) \<le> v \<and> v \<le> Q3 + 3 * (Q3 - Q1)"
proof -
  from clean_data_parts [OF res pre] obtain df7 where
    fo: "filter_outliers pre = Inr (df7, outliers_removed res)"
    and nt: "normalize_text L text_columns df7 = Inr (cleaned res)"
    by blast
  have cols: "columns pre = columns df" by (rule before_outliers_frame(1) [OF pre])
  then have ci: "col_pos (columns pre) ''total_venta'' = Some i" using col by simp
  then have ro: "remove_outliers pre ''total_venta'' = Inr (df7, outliers_removed res)"
    using fo by (simp add: filter_outliers_def has_column_def)
  have c7: "columns df7 = columns pre" by (rule remove_outliers_frame(1) [OF ro ci])
  have "''total_venta'' \<notin> set text_columns" by (simp add: text_columns_def)
  then have same: "map (\<lambda>r. r ! i) (rows (cleaned res)) = map (\<lambda>r. r ! i) (rows df7)"
    using normalize_text_frame [OF nt] ci c7 by simp
  have "r ! i \<in> set (map (\<lambda>r. r ! i) (rows (cleaned res)))" using r by simp
  then obtain r7 where r7: "r7 \<in> set (rows df7)" "r7 ! i = r ! i" using same by auto
  from remove_outliers_frame(3) [OF ro ci r7(1)] r7(2) show ?thesis by simp
qed

theorem outlier_bound_witness:
  "clean_data demo_library outlier_scenario =
     Inr \<lparr>cleaned = outlier_scenario_cleaned, duplicates_removed = 0, nulls_removed = 0,
          invalid_qty_removed = 0, invalid_price_removed = 0, outliers_removed = 0\<rparr>
   \<and> (\<exists>Q1 Q3 v. quantile (numbers (map (\<lambda>r. r ! 8) (rows outlier_scenario_parsed))) (1 / 4) = Some Q1
         \<and> quantile (numbers (map (\<lambda>r. r ! 8) (rows outlier_scenario_parsed))) (3 / 4) = Some Q3
         \<and> hd (rows outlier_scenario_cleaned) ! 8 = Num v
         \<and> Q1 - 3 * (Q3 - Q1) \<le> v \<and> v \<le> Q3 + 3 * (Q3 - Q1))"
proof -
  have col: "col_pos (columns outlier_scenario) ''total_venta'' = Some 8"
    by (simp add: outlier_scenario_def total_venta_pos)
  have r: "hd (rows outlier_scenario_cleaned)
      \<in> set (rows (cleaned \<lparr>cleaned = outlier_scenario_cleaned, duplicates_removed = 0, nulls_removed = 0,
          invalid_qty_removed = 0, invalid_price_removed = 0, outliers_removed = 0\<rparr>))"
    by (simp add: outlier_scenario_cleaned_def)
  show ?thesis
    using outlier_bound [OF clean_data_scenario before_outliers_scenario col r] clean_data_scenario
    by simp
qed

text \<open>
  Claim C6 (outlier scenario), as the code computes it: for the three rows with
  \<open>total_venta\<close> 100, 105 and 1000000 the quantiles are interpolated, \<open>Q1 = 102.5\<close> and
  \<open>Q3 = 500052.5\<close>, so \<open>IQR = 499950\<close> and the admissible range is
  \<open>[-1499747.5, 1999902.5]\<close>; the filter counts no outlier and keeps the three rows.
\<close>

theorem outlier_scenario_keeps_all_rows:
  "quantile [100, 105, 1000000] (1 / 4) = Some (205 / 2)
   \<and> quantile [100, 105, 1000000] (3 / 4) = Some (1000105 / 2)
   \<and> outlier_bounds (map (\<lambda>r. r ! 8) (rows outlier_scenario_parsed)) = (Some (- (2999495 / 2)), Some (3999805 / 2))
   \<and> remove_outliers outlier_scenario_parsed ''total_venta'' = Inr (outlier_scenario_parsed, 0)"
  by (simp add: outlier_scenario_parsed_def sales_columns_def remove_outliers_def outlier_bounds_def
      quantile_def comparable_def is_num_def isnull_def cell_le_def cell_lt_def cell_ge_def cell_gt_def
      fsub_def fadd_def fscale_def Let_def)

text \<open>
  The scenario as claim C6 states it fails: the cleaning stage keeps the row with
  \<open>total_venta = 1000000\<close> and reports no outlier.
\<close>

theorem outlier_scenario_not_dropped:
  "clean_data demo_library outlier_scenario =
     Inr \<lparr>cleaned = outlier_scenario_cleaned, duplicates_removed = 0, nulls_removed = 0,
          invalid_qty_removed = 0, invalid_price_removed = 0, outliers_removed = 0\<rparr>
   \<and> length (rows outlier_scenario_cleaned) = 3
   \<and> last (rows outlier_scenario_cleaned) ! 8 = Num 1000000"
  using clean_data_scenario by (simp add: outlier_scenario_cleaned_def)

section \<open>Properties of the validators and of the stage entry points\<close>

lemma coerce_numeric_verdict:
  "list_all id (snd (coerce_numeric_columns L cs df vs)) = list_all id vs"
  by (induction cs arbitrary: df vs) (auto split: option.splits)

lemma validate_extracted_data_verdict:
  "fst (validate_extracted_data L df) =
     (\<not> df_empty df \<and> missing_columns extract_required_columns df = [] \<and> (\<exists>d. convert_fecha L df = Inr d))"
  by (cases "convert_fecha L df")
    (simp_all add: validate_extracted_data_def Let_def case_prod_beta coerce_numeric_verdict)

lemma to_datetime_rows_other:
  "to_datetime_rows td i rs = Some rs' \<Longrightarrow> j \<noteq> i \<Longrightarrow> map (\<lambda>r. r ! j) rs' = map (\<lambda>r. r ! j) rs"
  by (induction rs arbitrary: rs') (auto split: option.splits)

lemma convert_fecha_other:
  assumes "convert_fecha L df = Inr d" and "col_pos (columns df) c = Some j" and "c \<noteq> ''fecha''"
  shows "map (\<lambda>r. r ! j) (rows d) = map (\<lambda>r. r ! j) (rows df)"
proof -
  from assms(1) obtain i rs where i: "col_pos (columns df) ''fecha'' = Some i"
    and rs: "to_datetime_rows (to_datetime L) i (rows df) = Some rs" and d: "d = df\<lparr>rows := rs\<rparr>"
    by (auto simp: convert_fecha_def split: option.splits)
  have "j \<noteq> i" using col_pos_inj [OF assms(2)] i assms(3) by auto
  then show ?thesis using to_datetime_rows_other [OF rs] d by simp
qed

lemma coerce_numeric_frame:
  "columns (fst (coerce_numeric_columns L cs df vs)) = columns df
   \<and> length (rows (fst (coerce_numeric_columns L cs df vs))) = length (rows df)
   \<and> (\<forall>c j. c \<notin> set cs \<longrightarrow> col_pos (columns df) c = Some j \<longrightarrow>
         map (\<lambda>r. r ! j) (rows (fst (coerce_numeric_columns L cs df vs))) = map (\<lambda>r. r ! j) (rows df))"
proof (induction cs arbitrary: df vs)
  case Nil
  then show ?case by simp
next
  case (Cons c cs)
  show ?case
  proof (cases "col_pos (columns df) c")
    case None
    then show ?thesis using Cons [of df vs] by auto
  next
    case (Some i)
    let ?df = "df\<lparr>rows := map_col i (to_numeric_coerce L) (rows df)\<rparr>"
    have keep: "map (\<lambda>r. r ! j) (rows ?df) = map (\<lambda>r. r ! j) (rows df)"
      if "col_pos (columns df) c' = Some j" "c' \<noteq> c" for c' j
    proof -
      have "j \<noteq> i" using col_pos_inj [OF that(1)] Some that(2) by auto
      then show ?thesis by (simp add: map_col_def)
    qed
    show ?thesis
    proof (cases "is_numeric_dtype (map (\<lambda>r. r ! i) (rows df))")
      case True
      then show ?thesis using Some Cons [of df vs] by auto
    next
      case False
      then show ?thesis using Some Cons [of ?df "vs @ [True]"] keep by (auto simp: map_col_def)
    qed
  qed
qed

lemma validate_data_before_load_frame: "snd (validate_data_before_load df) = df"
  by (simp add: validate_data_before_load_def Let_def split: sum.splits)

lemma coerce_numeric_columns_same:
  "columns (fst (coerce_numeric_columns L cs df vs)) = columns df"
  "length (rows (fst (coerce_numeric_columns L cs df vs))) = length (rows df)"
  "c \<notin> set cs \<Longrightarrow> col_pos (columns df) c = Some j \<Longrightarrow>
     map (\<lambda>r. r ! j) (rows (fst (coerce_numeric_columns L cs df vs))) = map (\<lambda>r. r ! j) (rows df)"
proof -
  note f = coerce_numeric_frame [of L cs df vs]
  show "columns (fst (coerce_numeric_columns L cs df vs)) = columns df"
    by (rule conjunct1 [OF f])
  show "length (rows (fst (coerce_numeric_columns L cs df vs))) = length (rows df)"
    by (rule conjunct1 [OF conjunct2 [OF f]])
  show "map (\<lambda>r. r ! j) (rows (fst (coerce_numeric_columns L cs df vs))) = map (\<lambda>r. r ! j) (rows df)"
    if "c \<notin> set cs" "col_pos (columns df) c = Some j"
    using conjunct2 [OF conjunct2 [OF f], rule_format, OF that] .
qed

lemma validate_extracted_data_result:
  "snd (validate_extracted_data L df) =
     fst (coerce_numeric_columns L extract_numeric_columns
            (case convert_fecha L df of Inl e \<Rightarrow> df | Inr d \<Rightarrow> d)
            ([\<not> df_empty df, missing_columns extract_required_columns df = []]
               @ [case convert_fecha L df of Inl e \<Rightarrow> False | Inr d \<Rightarrow> True]))"
  by (cases "convert_fecha L df") (simp_all add: validate_extracted_data_def Let_def case_prod_beta)

lemma validate_extracted_data_frame:
  "columns (snd (validate_extracted_data L df)) = columns df"
  "length (rows (snd (validate_extracted_data L df))) = length (rows df)"
  "c \<notin> set (''fecha'' # extract_numeric_columns) \<Longrightarrow> col_pos (columns df) c = Some j \<Longrightarrow>
     map (\<lambda>r. r ! j) (rows (snd (validate_extracted_data L df))) = map (\<lambda>r. r ! j) (rows df)"
proof -
  let ?d = "case convert_fecha L df of Inl e \<Rightarrow> df | Inr d \<Rightarrow> d"
  have cd: "columns ?d = columns df" and ld: "length (rows ?d) = length (rows df)"
    by (cases "convert_fecha L df"; simp add: convert_fecha_frame)+
  show "columns (snd (validate_extracted_data L df)) = columns df"
    by (simp only: validate_extracted_data_result coerce_numeric_columns_same(1) cd)
  show "length (rows (snd (validate_extracted_data L df))) = length (rows df)"
    by (simp only: validate_extracted_data_result coerce_numeric_columns_same(2) ld)
  show "map (\<lambda>r. r ! j) (rows (snd (validate_extracted_data L df))) = map (\<lambda>r. r ! j) (rows df)"
    if c: "c \<notin> set (''fecha'' # extract_numeric_columns)" and j: "col_pos (columns df) c = Some j"
  proof -
    have keep: "map (\<lambda>r. r ! j) (rows ?d) = map (\<lambda>r. r ! j) (rows df)"
      using j c by (cases "convert_fecha L df") (simp_all add: convert_fecha_other [of L df _ c j])
    have "c \<notin> set extract_numeric_columns" and "col_pos (columns ?d) c = Some j"
      using c j cd by simp_all
    then show ?thesis
      by (simp only: validate_extracted_data_result coerce_numeric_columns_same(3) keep)
  qed
qed

lemma positions_present:
  "positions cols cs = Inr is \<Longrightarrow> c \<in> set cs \<Longrightarrow> col_pos cols c \<noteq> None"
  by (induction cs arbitrary: "is") (auto split: option.splits sum.splits)

lemma check_negatives_False:
  assumes "check_negatives cs df vs = Inr vs'"
    and "False \<in> set vs \<or> (\<exists>c \<in> set cs. \<exists>i. col_pos (columns df) c = Some i
           \<and> list_ex (\<lambda>r. cell_lt (r ! i) (Some 0)) (rows df))"
  shows "False \<in> set vs'"
  using assms
proof (induction cs arbitrary: vs)
  case Nil
  then show ?case by simp
next
  case (Cons c cs)
  show ?case
  proof (cases "col_pos (columns df) c")
    case None
    then show ?thesis using Cons by auto
  next
    case (Some i)
    from Cons.prems(1) Some obtain neg where neg: "any_negative (map (\<lambda>r. r ! i) (rows df)) = Inr neg"
      and rest: "check_negatives cs df (vs @ [\<not> neg]) = Inr vs'"
      by (auto split: sum.splits)
    have negv: "neg = list_ex (\<lambda>r. cell_lt (r ! i) (Some 0)) (rows df)"
      using neg by (auto simp: any_negative_def list_ex_iff split: if_splits)
    show ?thesis
    proof (rule Cons.IH [OF rest])
      show "False \<in> set (vs @ [\<not> neg]) \<or> (\<exists>c \<in> set cs. \<exists>i. col_pos (columns df) c = Some i
           \<and> list_ex (\<lambda>r. cell_lt (r ! i) (Some 0)) (rows df))"
        using Cons.prems(2) Some negv by auto
    qed
  qed
qed

lemma negative_not_valid:
  assumes "c \<in> set load_numeric_columns" and "col_pos (columns df) c = Some i"
    and "list_ex (\<lambda>r. cell_lt (r ! i) (Some 0)) (rows df)"
  shows "fst (validate_data_before_load df) \<noteq> Inr True"
proof (cases "df_empty df")
  case True
  then show ?thesis by (simp add: validate_data_before_load_def)
next
  case False
  show ?thesis
  proof
    assume ok: "fst (validate_data_before_load df) = Inr True"
    from ok False obtain "is" where ps: "positions (columns df) load_critical_columns = Inr is"
      by (auto simp: validate_data_before_load_def Let_def split: sum.splits)
    let ?v3 = "[True, missing_columns load_required_columns df = [], \<not> null_count is (rows df) > 0]"
    from ok False ps obtain v4 where cn: "check_negatives load_numeric_columns df ?v3 = Inr v4"
      and all: "list_all id v4"
      by (auto simp: validate_data_before_load_def Let_def split: sum.splits)
    have "False \<in> set v4" using check_negatives_False [OF cn] assms by blast
    then show False using all by (auto simp: list_all_iff)
  qed
qed

lemma load_not_valid:
  assumes "files w (path_join (data_output_path cfg) ''transformed_data.csv'') = Some df"
    and "fst (validate_data_before_load df) \<noteq> Inr True"
  shows "\<exists>e. load cfg L now w = (Inl e, w)"
proof (cases "fst (validate_data_before_load df)")
  case (Inl e)
  then show ?thesis using assms(1) by (simp add: load_def load_transformed_data_def)
next
  case (Inr b)
  then have "b = False" using assms(2) by auto
  then show ?thesis using Inr assms(1) by (simp add: load_def load_transformed_data_def)
qed

lemma missing_column_not_valid:
  assumes "c \<in> set load_critical_columns" and "\<not> has_column df c"
  shows "fst (validate_data_before_load df) \<noteq> Inr True"
proof (cases "df_empty df")
  case True
  then show ?thesis by (simp add: validate_data_before_load_def)
next
  case False
  have "\<And>is. positions (columns df) load_critical_columns \<noteq> Inr is"
    using positions_present [of "columns df" load_critical_columns _ c] assms
    by (auto simp: has_column_def)
  then show ?thesis using False
    by (auto simp: validate_data_before_load_def Let_def split: sum.splits)
qed

lemma column_has_negative:
  assumes "column_has df c (Num v)" and "v < 0"
  shows "\<exists>i. col_pos (columns df) c = Some i \<and> list_ex (\<lambda>r. cell_lt (r ! i) (Some 0)) (rows df)"
proof -
  from assms(1) obtain i r where i: "col_pos (columns df) c = Some i"
    and r: "r \<in> set (rows df)" "r ! i = Num v"
    by (auto simp: column_has_def list_ex_iff split: option.splits)
  have "cell_lt (r ! i) (Some 0)" using r(2) assms(2) by (simp add: cell_lt_def)
  then show ?thesis using i r(1) by (auto simp: list_ex_iff)
qed

lemma extract_not_valid:
  assumes "tables w (table_source cfg) = Some df" and "\<not> fst (validate_extracted_data L df)"
  shows "\<exists>e. extract_stage cfg L w = (Inl e, w)"
  using assms by (simp add: extract_stage_def extract_data_from_db_def case_prod_beta)

text \<open>
  Claim C5 (validation rejects with no write): when the source table is empty or lacks the
  column \<open>producto\<close>, \<open>extract\<close> raises and leaves the world as it was; when the aggregated
  artefact is empty, lacks the column \<open>producto\<close> or holds \<open>cantidad_total = -5\<close>, \<open>load\<close>
  raises and leaves the world as it was: no artefact, table, backup or index is written.
\<close>

theorem validation_rejects_without_writing:
  "(tables w (table_source cfg) = Some df \<and> (df_empty df \<or> \<not> has_column df ''producto'')
      \<longrightarrow> (\<exists>e. extract_stage cfg L w = (Inl e, w)))
   \<and> (files w (path_join (data_output_path cfg) ''transformed_data.csv'') = Some df
        \<and> (df_empty df \<or> \<not> has_column df ''producto'' \<or> column_has df ''cantidad_total'' (Num (- 5)))
      \<longrightarrow> (\<exists>e. load cfg L now w = (Inl e, w)))"
proof (intro conjI impI)
  assume a: "tables w (table_source cfg) = Some df \<and> (df_empty df \<or> \<not> has_column df ''producto'')"
  then have "df_empty df \<or> missing_columns extract_required_columns df \<noteq> []"
    by (auto simp: missing_columns_def extract_required_columns_def filter_empty_conv)
  then have "\<not> fst (validate_extracted_data L df)"
    by (auto simp: validate_extracted_data_verdict)
  then show "\<exists>e. extract_stage cfg L w = (Inl e, w)" using a extract_not_valid by blast
next
  assume a: "files w (path_join (data_output_path cfg) ''transformed_data.csv'') = Some df
        \<and> (df_empty df \<or> \<not> has_column df ''producto'' \<or> column_has df ''cantidad_total'' (Num (- 5)))"
  have "fst (validate_data_before_load df) \<noteq> Inr True"
  proof -
    consider "df_empty df" | "\<not> has_column df ''producto''" | "column_has df ''cantidad_total'' (Num (- 5))"
      using a by blast
    then show ?thesis
    proof cases
      case 1
      then show ?thesis by (simp add: validate_data_before_load_def)
    next
      case 2
      then show ?thesis by (intro missing_column_not_valid [of "''producto''"]) (simp_all add: load_critical_columns_def)
    next
      case 3
      from column_has_negative [OF 3] obtain i where
        "col_pos (columns df) ''cantidad_total'' = Some i" "list_ex (\<lambda>r. cell_lt (r ! i) (Some 0)) (rows df)"
        by auto
      then show ?thesis
        by (intro negative_not_valid [of "''cantidad_total''" df i]) (simp_all add: load_numeric_columns_def)
    qed
  qed
  then show "\<exists>e. load cfg L now w = (Inl e, w)" using a load_not_valid by blast
qed

lemmas validate_defs = validate_extracted_data_def df_empty_def missing_columns_def
  extract_required_columns_def extract_numeric_columns_def extract_columns_def
  convert_fecha_def has_column_def map_col_def is_numeric_dtype_def isnull_def is_num_def Let_def

lemma not_numeric_sample_verdict: "validate_extracted_data demo_library not_numeric_batch = (True, not_numeric_validated)"
  by (simp add: not_numeric_batch_def not_numeric_validated_def demo_defs validate_defs)

lemma extract_sample_verdict: "validate_extracted_data demo_library extract_sample = (True, extract_sample_validated)"
  by (simp add: extract_sample_def extract_sample_validated_def demo_defs validate_defs)

lemma extract_sample_changed: "extract_sample_validated \<noteq> extract_sample"
  by (simp add: extract_sample_def extract_sample_validated_def)

lemmas load_validate_defs = validate_data_before_load_def df_empty_def missing_columns_def
  load_required_columns_def load_critical_columns_def load_numeric_columns_def duplicate_subset_def
  aggregated_columns_def has_column_def any_negative_def comparable_def null_count_def
  cell_lt_def isnull_def is_num_def Let_def

lemma negative_discount_valid: "validate_data_before_load negative_discount_batch = (Inr True, negative_discount_batch)"
  by (simp add: negative_discount_batch_def load_validate_defs)

lemma load_sample_valid: "validate_data_before_load load_sample = (Inr True, load_sample)"
  by (simp add: load_sample_def load_validate_defs)

lemma source_world_table: "tables (source_world df) (table_source demo_config) = Some df"
  by (simp add: source_world_def empty_world_def demo_config_def)

lemma artefact_world_file: "files (artefact_world df) (path_join (data_output_path demo_config) ''transformed_data.csv'') = Some df"
  by (simp add: artefact_world_def empty_world_def demo_config_def path_join_def)

lemmas prepare_defs = prepare_data_for_load_def fecha_to_string_def format_fecha_def
  prepare_numeric_columns_def sort_by_fecha_def fecha_key_def drop_at_def map_col_def
  iso_format_def digit_char_def

lemma load_sample_preparation: "prepare_data_for_load demo_library load_sample = Inr load_sample_prepared"
  by (simp add: load_sample_def load_sample_prepared_def aggregated_columns_def demo_defs prepare_defs)

lemma backup_existing_data_keeps:
  "files (backup_existing_data cfg now w) = files w"
  "tables (backup_existing_data cfg now w) (table_target cfg) = tables w (table_target cfg)"
  by (auto simp: backup_existing_data_def Let_def split: option.splits)

lemma load_to_database_replace:
  "fst (load_to_database df t Replace w) = Inr (length (rows df))"
  "tables (snd (load_to_database df t Replace w)) t = Some df"
  "files (snd (load_to_database df t Replace w)) = files w"
  by (auto simp: load_to_database_def split: option.splits)

lemma create_indexes_keeps:
  "files (create_indexes cfg w) = files w" "tables (create_indexes cfg w) = tables w"
  by (auto simp: create_indexes_def split: option.splits)

lemma to_numeric_columns_length: "length (rows (to_numeric_columns L cs df)) = length (rows df)"
  by (induction cs arbitrary: df) (auto simp: map_col_def split: option.splits)

lemma drop_columns_length: "length (rows (drop_columns cs df)) = length (rows df)"
  by (induction cs arbitrary: df) (auto split: option.splits)

lemma prepare_data_for_load_length:
  assumes "prepare_data_for_load L df = Inr dfp"
  shows "length (rows dfp) = length (rows df)"
proof -
  from assms obtain df1 where f: "fecha_to_string L df = Inr df1"
    and s: "sort_by_fecha (drop_columns [''Unnamed: 0'', ''index''] (to_numeric_columns L prepare_numeric_columns df1)) = Inr dfp"
    by (auto simp: prepare_data_for_load_def split: sum.splits)
  have l1: "length (rows df1) = length (rows df)"
    using f by (auto simp: fecha_to_string_def split: option.splits dest: to_datetime_rows_length)
  have "length (rows dfp) = length (rows (drop_columns [''Unnamed: 0'', ''index''] (to_numeric_columns L prepare_numeric_columns df1)))"
    using s by (auto simp: sort_by_fecha_def split: option.splits)
  then show ?thesis using l1 by (simp only: drop_columns_length to_numeric_columns_length)
qed

lemma after_load_keeps:
  "files (after_load cfg now dfp w) = files w"
  "tables (after_load cfg now dfp w) (table_target cfg) = Some dfp"
  by (simp_all add: after_load_def create_indexes_keeps load_to_database_replace backup_existing_data_keeps)

lemma load_valid:
  assumes "files w (path_join (data_output_path cfg) ''transformed_data.csv'') = Some df"
    and "fst (validate_data_before_load df) = Inr True"
    and "prepare_data_for_load L df = Inr dfp"
  shows "load cfg L now w = (generate_load_statistics cfg (after_load cfg now dfp w), after_load cfg now dfp w)"
  using assms load_to_database_replace(1) [of dfp "table_target cfg" "backup_existing_data cfg now w"]
  by (simp add: load_def load_transformed_data_def validate_data_before_load_frame after_load_def
      Let_def case_prod_beta)

lemma load_Inr:
  assumes "files w (path_join (data_output_path cfg) ''transformed_data.csv'') = Some df"
    and "load cfg L now w = (Inr s, w')"
  shows "fst (validate_data_before_load df) = Inr True \<and> (\<exists>dfp. prepare_data_for_load L df = Inr dfp)"
  using assms
  by (auto simp: load_def load_transformed_data_def validate_data_before_load_frame
      split: sum.splits bool.splits)

lemma statistics_of_table:
  assumes "generate_load_statistics cfg w = Inr s" and "tables w (table_target cfg) = Some t"
  shows "total_records s = length (rows t)"
  using assms by (auto simp: generate_load_statistics_def split: option.splits)

lemma statistics_same_table:
  "tables w (table_target cfg) = tables w' (table_target cfg) \<Longrightarrow>
     generate_load_statistics cfg w = generate_load_statistics cfg w'"
  by (simp add: generate_load_statistics_def)

text \<open>
  Claim C4 (idempotent replace): when \<open>load\<close> succeeds on an aggregated artefact, a second
  \<open>load\<close> of the same artefact succeeds with the same statistics, and after each of the two
  the target table is the prepared batch: the same content, with as many rows as the
  aggregated batch.
\<close>

theorem idempotent_replace:
  assumes "files w (path_join (data_output_path cfg) ''transformed_data.csv'') = Some df"
    and "load cfg L now1 w = (Inr s1, w1)"
  shows "\<exists>dfp w2. load cfg L now2 w1 = (Inr s1, w2)
           \<and> tables w1 (table_target cfg) = Some dfp \<and> tables w2 (table_target cfg) = Some dfp
           \<and> length (rows dfp) = length (rows df) \<and> total_records s1 = length (rows df)"
proof -
  from load_Inr [OF assms] obtain dfp where v: "fst (validate_data_before_load df) = Inr True"
    and p: "prepare_data_for_load L df = Inr dfp"
    by blast
  have w1: "w1 = after_load cfg now1 dfp w" and s1: "generate_load_statistics cfg w1 = Inr s1"
    using load_valid [OF assms(1) v p, of now1] assms(2) by simp_all
  have t1: "tables w1 (table_target cfg) = Some dfp" and f1: "files w1 = files w"
    using w1 by (simp_all add: after_load_keeps)
  let ?w2 = "after_load cfg now2 dfp w1"
  have t2: "tables ?w2 (table_target cfg) = Some dfp" by (simp add: after_load_keeps)
  have "generate_load_statistics cfg ?w2 = generate_load_statistics cfg w1"
    by (rule statistics_same_table) (simp add: t1 t2)
  then have "load cfg L now2 w1 = (Inr s1, ?w2)"
    using load_valid [of w1 cfg df L dfp now2] assms(1) f1 v p s1 by simp
  moreover have "length (rows dfp) = length (rows df)" by (rule prepare_data_for_load_length [OF p])
  moreover have "total_records s1 = length (rows dfp)" by (rule statistics_of_table [OF s1 t1])
  ultimately show ?thesis using t1 t2 by auto
qed

lemma load_sample_loaded:
  "fst (load demo_config demo_library now (artefact_world load_sample))
     = Inr \<lparr>total_records = 3, total_sales = 11725\<rparr>"
  unfolding load_valid [OF artefact_world_file, of load_sample demo_library load_sample_prepared now, simplified load_sample_valid, simplified, OF load_sample_preparation]
  by (simp add: generate_load_statistics_def after_load_keeps(2) [of demo_config, simplified demo_config_def, simplified]
      demo_config_def load_sample_prepared_def aggregated_columns_def)

theorem idempotent_replace_witness:
  "\<exists>dfp w2. load demo_config demo_library ''20231103_121500''
               (snd (load demo_config demo_library ''20231103_120000'' (artefact_world load_sample)))
             = (Inr \<lparr>total_records = 3, total_sales = 11725\<rparr>, w2)
     \<and> tables (snd (load demo_config demo_library ''20231103_120000'' (artefact_world load_sample)))
          (table_target demo_config) = Some dfp
     \<and> tables w2 (table_target demo_config) = Some dfp
     \<and> length (rows dfp) = length (rows load_sample)
     \<and> total_records \<lparr>total_records = 3, total_sales = 11725\<rparr> = length (rows load_sample)"
proof -
  have h: "load demo_config demo_library ''20231103_120000'' (artefact_world load_sample)
      = (Inr \<lparr>total_records = 3, total_sales = 11725\<rparr>,
         snd (load demo_config demo_library ''20231103_120000'' (artefact_world load_sample)))"
    using load_sample_loaded [of "''20231103_120000''"] by (simp add: prod_eq_iff)
  show ?thesis by (rule idempotent_replace [OF artefact_world_file h])
qed

theorem validation_rejects_without_writing_witness:
  "(\<exists>e. extract_stage demo_config demo_library (source_world extract_no_rows)
         = (Inl e, source_world extract_no_rows))
   \<and> (\<exists>e. extract_stage demo_config demo_library (source_world extract_no_producto)
         = (Inl e, source_world extract_no_producto))
   \<and> (\<exists>e. load demo_config demo_library ''20231103_120000'' (artefact_world aggregated_no_rows)
         = (Inl e, artefact_world aggregated_no_rows))
   \<and> (\<exists>e. load demo_config demo_library ''20231103_120000'' (artefact_world aggregated_no_producto)
         = (Inl e, artefact_world aggregated_no_producto))
   \<and> (\<exists>e. load demo_config demo_library ''20231103_120000'' (artefact_world negative_quantity_batch)
         = (Inl e, artefact_world negative_quantity_batch))"
proof -
  have e1: "df_empty extract_no_rows" by (simp add: df_empty_def extract_no_rows_def)
  have e2: "\<not> has_column extract_no_producto ''producto''"
    by (simp add: has_column_def extract_no_producto_def)
  have l1: "df_empty aggregated_no_rows" by (simp add: df_empty_def aggregated_no_rows_def)
  have l2: "\<not> has_column aggregated_no_producto ''producto''"
    by (simp add: has_column_def aggregated_no_producto_def)
  have l3: "column_has negative_quantity_batch ''cantidad_total'' (Num (- 5))"
    by (simp add: column_has_def negative_quantity_batch_def aggregated_columns_def)
  note t = validation_rejects_without_writing
  show ?thesis
    using t [where w = "source_world extract_no_rows" and cfg = demo_config and df = extract_no_rows
          and L = demo_library, THEN conjunct1]
      t [where w = "source_world extract_no_producto" and cfg = demo_config and df = extract_no_producto
          and L = demo_library, THEN conjunct1]
      t [where w = "artefact_world aggregated_no_rows" and cfg = demo_config and df = aggregated_no_rows
          and L = demo_library and now = "''20231103_120000''", THEN conjunct2]
      t [where w = "artefact_world aggregated_no_producto" and cfg = demo_config and df = aggregated_no_producto
          and L = demo_library and now = "''20231103_120000''", THEN conjunct2]
      t [where w = "artefact_world negative_quantity_batch" and cfg = demo_config and df = negative_quantity_batch
          and L = demo_library and now = "''20231103_120000''", THEN conjunct2]
      e1 e2 l1 l2 l3 source_world_table artefact_world_file
    by simp
qed

























text \<open>
  Claim C8 (a value that is no number fails the numeric check): the code passes such a
  batch. \<open>pd.to_numeric(errors='coerce')\<close> turns \<open>abc\<close> into \<open>NaN\<close> without raising, the
  check appends \<open>True\<close> and the verdict is \<open>True\<close>.
\<close>

theorem not_numeric_value_passes_validation:
  "validate_extracted_data demo_library not_numeric_batch = (True, not_numeric_validated)
   \<and> column_has not_numeric_batch ''cantidad'' (Str ''abc'')"
  using not_numeric_sample_verdict
  by (simp add: column_has_def not_numeric_batch_def extract_columns_def)

lemma negative_discount_preparation:
  "prepare_data_for_load demo_library negative_discount_batch = Inr negative_discount_batch"
  by (simp add: negative_discount_batch_def aggregated_columns_def demo_defs prepare_defs)

text \<open>
  Claim C7 (a negative value in any numeric column fails the validation before the load):
  the code checks \<open>cantidad_total\<close>, \<open>precio_promedio\<close>, \<open>total_venta\<close> and
  \<open>num_transacciones\<close> only. A batch with \<open>descuento_promedio = -0.1\<close> passes, and \<open>load\<close>
  writes it to the target table.
\<close>

theorem negative_discount_passes_validation:
  "validate_data_before_load negative_discount_batch = (Inr True, negative_discount_batch)
   \<and> column_has negative_discount_batch ''descuento_promedio'' (Num (- (1 / 10)))
   \<and> load demo_config demo_library ''20231103_120000'' (artefact_world negative_discount_batch)
       = (Inr \<lparr>total_records = 2, total_sales = 9475\<rparr>,
          after_load demo_config ''20231103_120000'' negative_discount_batch
            (artefact_world negative_discount_batch))
   \<and> tables (after_load demo_config ''20231103_120000'' negative_discount_batch
                (artefact_world negative_discount_batch)) ''sales_transformed''
       = Some negative_discount_batch"
proof -
  have v: "fst (validate_data_before_load negative_discount_batch) = Inr True"
    by (simp add: negative_discount_valid)
  have t: "tables (after_load demo_config ''20231103_120000'' negative_discount_batch
                (artefact_world negative_discount_batch)) ''sales_transformed''
       = Some negative_discount_batch"
    using after_load_keeps(2) [of demo_config] by (simp add: demo_config_def)
  have s: "generate_load_statistics demo_config
             (after_load demo_config ''20231103_120000'' negative_discount_batch
                (artefact_world negative_discount_batch))
           = Inr \<lparr>total_records = 2, total_sales = 9475\<rparr>"
    by (simp add: generate_load_statistics_def after_load_keeps(2))
       (simp add: negative_discount_batch_def aggregated_columns_def)
  have c: "column_has negative_discount_batch ''descuento_promedio'' (Num (- (1 / 10)))"
    by (simp add: column_has_def negative_discount_batch_def aggregated_columns_def)
  show ?thesis
    using load_valid [OF artefact_world_file v negative_discount_preparation, of "''20231103_120000''"]
      negative_discount_valid t s c
    by simp
qed

section \<open>Properties of the aggregation\<close>

lemmas aggregate_defs = aggregate_data_def group_columns_def value_columns_def aggregated_columns_def
  group_keys_def group_rows_def key_of_def cell_key_def aggregate_group_def agg_sum_def agg_mean_def
  agg_count_def round_cell_def round_to_def round_half_even_def any_null_def isnull_def
  comparable_def is_num_def sales_columns_def Let_def

lemma missing_id_rollup: "aggregate_data missing_id_cleaned = Inr missing_id_aggregated"
  by (simp add: missing_id_cleaned_def missing_id_aggregated_def aggregate_defs)

lemma missing_region_rollup: "aggregate_data missing_region_cleaned = Inr missing_region_aggregated"
  by (simp add: missing_region_cleaned_def missing_region_aggregated_def aggregate_defs)

lemma outlier_scenario_rollup: "aggregate_data outlier_scenario_cleaned = Inr outlier_scenario_aggregated"
  by (simp add: outlier_scenario_cleaned_def outlier_scenario_aggregated_def aggregate_defs)

lemma missing_id_cleaning: "clean_data demo_library missing_id_batch =
     Inr \<lparr>cleaned = missing_id_cleaned, duplicates_removed = 0, nulls_removed = 0,
          invalid_qty_removed = 0, invalid_price_removed = 0, outliers_removed = 0\<rparr>"
  by (simp add: missing_id_batch_def missing_id_cleaned_def demo_defs clean_defs)

lemma missing_region_cleaning: "clean_data demo_library missing_region_batch =
     Inr \<lparr>cleaned = missing_region_cleaned, duplicates_removed = 0, nulls_removed = 0,
          invalid_qty_removed = 0, invalid_price_removed = 0, outliers_removed = 0\<rparr>"
  by (simp add: missing_region_batch_def missing_region_cleaned_def demo_defs clean_defs)

lemma positions_length: "positions cols cs = Inr is \<Longrightarrow> length is = length cs"
  by (induction cs arbitrary: "is") (auto split: option.splits sum.splits)

lemma positions_nth:
  "positions cols cs = Inr is \<Longrightarrow> n < length cs \<Longrightarrow> col_pos cols (cs ! n) = Some (is ! n)"
proof (induction cs arbitrary: "is" n)
  case Nil
  then show ?case by simp
next
  case (Cons c cs)
  then show ?case by (cases n) (auto split: option.splits sum.splits)
qed

lemma numbers_append: "numbers (xs @ ys) = numbers xs @ numbers ys"
  by (induction xs rule: numbers.induct) auto

lemma numbers_map_Num: "numbers (map (\<lambda>x. Num (f x)) xs) = map f xs"
  by (induction xs) auto

lemma sum_numbers_map: "sum_list (numbers (map h xs)) = sum_list (map (\<lambda>x. sum_list (numbers [h x])) xs)"
proof (induction xs)
  case Nil
  then show ?case by simp
next
  case (Cons x xs)
  have "numbers (map h (x # xs)) = numbers [h x] @ numbers (map h xs)"
    using numbers_append [of "[h x]" "map h xs"] by simp
  then show ?case using Cons by simp
qed

lemma partition_sum:
  fixes g :: "'a \<Rightarrow> rat"
  assumes "finite A" and "f ` set xs \<subseteq> A"
  shows "(\<Sum>k\<in>A. sum_list (map g (filter (\<lambda>x. f x = k) xs))) = sum_list (map g xs)"
  using assms(2)
proof (induction xs)
  case Nil
  then show ?case by simp
next
  case (Cons x xs)
  have "(\<Sum>k\<in>A. sum_list (map g (filter (\<lambda>y. f y = k) (x # xs))))
      = (\<Sum>k\<in>A. (if k = f x then g x else 0) + sum_list (map g (filter (\<lambda>y. f y = k) xs)))"
    by (intro sum.cong refl) auto
  also have "\<dots> = (\<Sum>k\<in>A. if k = f x then g x else 0) + (\<Sum>k\<in>A. sum_list (map g (filter (\<lambda>y. f y = k) xs)))"
    by (rule sum.distrib)
  also have "(\<Sum>k\<in>A. if k = f x then g x else 0) = g x"
    using assms(1) Cons.prems by (simp add: sum.delta)
  also have "(\<Sum>k\<in>A. sum_list (map g (filter (\<lambda>y. f y = k) xs))) = sum_list (map g xs)"
    using Cons by simp
  finally show ?case by simp
qed

lemma sum_list_insort_key:
  "sum_list (map (h :: 'a \<Rightarrow> rat) (insort_key f x xs)) = h x + sum_list (map h xs)"
  by (induction xs) (auto simp: algebra_simps)

lemma sum_list_sort_key: "sum_list (map (h :: 'a \<Rightarrow> rat) (sort_key f xs)) = sum_list (map h xs)"
  by (induction xs) (simp_all add: sum_list_insort_key)

lemma group_sums:
  fixes g :: "cell list \<Rightarrow> rat"
  assumes "\<forall>r \<in> set rs. \<not> any_null ks r"
  shows "sum_list (map (\<lambda>key. sum_list (map g (group_rows ks rs key))) (group_keys ks rs)) = sum_list (map g rs)"
proof -
  have f: "filter (\<lambda>r. \<not> any_null ks r) rs = rs" using assms by simp
  let ?K = "remdups (map (key_of ks) rs)"
  have "sum_list (map (\<lambda>key. sum_list (map g (group_rows ks rs key))) (group_keys ks rs))
      = sum_list (map (\<lambda>key. sum_list (map g (group_rows ks rs key))) ?K)"
    by (simp add: group_keys_def f sum_list_sort_key)
  also have "\<dots> = (\<Sum>key \<in> set ?K. sum_list (map g (group_rows ks rs key)))"
    by (rule sum_list_distinct_conv_sum_set) simp
  also have "\<dots> = sum_list (map g rs)"
    unfolding group_rows_def by (rule partition_sum) auto
  finally show ?thesis .
qed

lemma round_half_even_close: "\<bar>of_int (round_half_even x) - x\<bar> \<le> 1 / 2"
proof -
  have "of_int \<lfloor>x\<rfloor> \<le> x" "x < of_int \<lfloor>x\<rfloor> + 1" by linarith+
  then show ?thesis by (auto simp: round_half_even_def Let_def)
qed

lemma round_to_close: "\<bar>round_to k x - x\<bar> \<le> 1 / (2 * 10 ^ k)"
proof -
  have p: "(0 :: rat) < 10 ^ k" by simp
  have "round_to k x - x = (of_int (round_half_even (x * 10 ^ k)) - x * 10 ^ k) / 10 ^ k"
    using p by (simp add: round_to_def field_simps)
  then have "\<bar>round_to k x - x\<bar> = \<bar>of_int (round_half_even (x * 10 ^ k)) - x * 10 ^ k\<bar> / 10 ^ k"
    using p by (simp add: abs_divide)
  also have "\<dots> \<le> (1 / 2) / 10 ^ k"
    by (rule divide_right_mono [OF round_half_even_close]) simp
  finally show ?thesis by simp
qed

lemma sum_list_close:
  fixes a b :: "'a \<Rightarrow> rat"
  assumes "\<And>x. x \<in> set xs \<Longrightarrow> \<bar>a x - b x\<bar> \<le> e"
  shows "\<bar>sum_list (map a xs) - sum_list (map b xs)\<bar> \<le> of_nat (length xs) * e"
  using assms
proof (induction xs)
  case Nil
  then show ?case by simp
next
  case (Cons x xs)
  have "\<bar>a x - b x\<bar> \<le> e" using Cons.prems by simp
  moreover have "\<bar>sum_list (map a xs) - sum_list (map b xs)\<bar> \<le> of_nat (length xs) * e"
    using Cons by simp
  ultimately show ?case by (simp add: algebra_simps)
qed

lemma aggregate_data_parts:
  assumes "aggregate_data df = Inr agg"
  obtains ks vs where "positions (columns df) group_columns = Inr ks"
    and "positions (columns df) value_columns = Inr vs"
    and "columns agg = aggregated_columns"
    and "rows agg = map (aggregate_group ks vs (rows df)) (group_keys ks (rows df))"
  using assms unfolding aggregate_data_def
  by (auto split: sum.splits if_splits)

lemma group_keys_length: "key \<in> set (group_keys ks rs) \<Longrightarrow> length key = length ks"
  by (auto simp: group_keys_def key_of_def)

lemma aggregate_group_nth:
  assumes "length key = 4"
  shows "aggregate_group ks vs rs key ! 7 = round_cell 2 (agg_sum (map (\<lambda>r. r ! (vs ! 3)) (group_rows ks rs key)))"
    and "aggregate_group ks vs rs key ! 8 = agg_count (map (\<lambda>r. r ! (vs ! 4)) (group_rows ks rs key))"
    and "take 4 (aggregate_group ks vs rs key) = key"
  using assms by (simp_all add: aggregate_group_def Let_def nth_append)

lemma total_venta_in_aggregated: "col_pos aggregated_columns ''total_venta'' = Some 7"
  by (simp add: aggregated_columns_def)

lemma any_null_key_of: "any_null ks r = list_ex isnull (key_of ks r)"
  by (simp add: any_null_def key_of_def list_ex_iff)

lemma group_keys_filter:
  "group_keys ks (filter (\<lambda>r. \<not> any_null ks r) rs) = group_keys ks rs"
  by (simp add: group_keys_def)

lemma group_rows_filter:
  assumes "key \<in> set (group_keys ks rs)"
  shows "group_rows ks (filter (\<lambda>r. \<not> any_null ks r) rs) key = group_rows ks rs key"
proof -
  from assms obtain r0 where r0: "\<not> any_null ks r0" "key = key_of ks r0"
    by (auto simp: group_keys_def)
  have "\<And>r. key_of ks r = key \<Longrightarrow> \<not> any_null ks r"
    using r0 by (simp add: any_null_key_of)
  then show ?thesis
    unfolding group_rows_def filter_filter by (intro filter_cong refl) auto
qed

lemma group_sums_with_keys:
  fixes g :: "cell list \<Rightarrow> rat"
  shows "sum_list (map (\<lambda>key. sum_list (map g (group_rows ks rs key))) (group_keys ks rs))
       = sum_list (map g (filter (\<lambda>r. \<not> any_null ks r) rs))"
proof -
  let ?rs = "filter (\<lambda>r. \<not> any_null ks r) rs"
  have "sum_list (map (\<lambda>key. sum_list (map g (group_rows ks rs key))) (group_keys ks rs))
      = sum_list (map (\<lambda>key. sum_list (map g (group_rows ks ?rs key))) (group_keys ks rs))"
    by (rule arg_cong [where f = sum_list], rule map_cong [OF refl]) (simp add: group_rows_filter)
  also have "\<dots> = sum_list (map (\<lambda>key. sum_list (map g (group_rows ks ?rs key))) (group_keys ks ?rs))"
    by (simp only: group_keys_filter)
  also have "\<dots> = sum_list (map g ?rs)"
    by (rule group_sums) simp
  finally show ?thesis .
qed

text \<open>
  What the rollup does add up: when \<open>aggregate_data\<close> returns, the sum of \<open>total_venta\<close> over
  the aggregated rows is the sum over the rows of the batch that have a value in each of
  \<open>fecha\<close>, \<open>producto\<close>, \<open>categoria\<close> and \<open>region\<close>, up to 0.01 per group. Numbers are exact
  here; no float64 summation error is accounted for.
\<close>

lemma aggregated_sum_of_rows_with_keys:
  assumes agg: "aggregate_data df = Inr agg"
  shows "\<bar>column_sum agg ''total_venta'' - column_sum (rows_with_keys df group_columns) ''total_venta''\<bar>
           \<le> 1 / 100 * of_nat (length (rows agg))"
proof -
  from aggregate_data_parts [OF agg] obtain ks vs where
    pk: "positions (columns df) group_columns = Inr ks"
    and pv: "positions (columns df) value_columns = Inr vs"
    and ca: "columns agg = aggregated_columns"
    and ra: "rows agg = map (aggregate_group ks vs (rows df)) (group_keys ks (rows df))"
    by blast
  let ?rs = "rows df" and ?t = "vs ! 3"
  let ?keys = "group_keys ks ?rs"
  let ?g = "\<lambda>r. sum_list (numbers [r ! ?t])"
  let ?S = "\<lambda>key. sum_list (numbers (map (\<lambda>r. r ! ?t) (group_rows ks ?rs key)))"
  have lk: "length ks = 4" using positions_length [OF pk] by (simp add: group_columns_def)
  have t: "col_pos (columns df) ''total_venta'' = Some ?t"
    using positions_nth [OF pv, of 3] by (simp add: value_columns_def)
  have "map (\<lambda>r. r ! 7) (rows agg) = map (\<lambda>key. Num (round_to 2 (?S key))) ?keys"
    unfolding ra
    by (auto simp: aggregate_group_nth(1) group_keys_length lk agg_sum_def round_cell_def)
  then have sa: "column_sum agg ''total_venta'' = sum_list (map (\<lambda>key. round_to 2 (?S key)) ?keys)"
    by (simp add: column_sum_def ca total_venta_in_aggregated numbers_map_Num)
  have "column_sum (rows_with_keys df group_columns) ''total_venta''
          = sum_list (map ?g (filter (\<lambda>r. \<not> any_null ks r) ?rs))"
    by (simp add: column_sum_def rows_with_keys_def pk t sum_numbers_map [of "\<lambda>r. r ! ?t"])
  also have "\<dots> = sum_list (map (\<lambda>key. sum_list (map ?g (group_rows ks ?rs key))) ?keys)"
    by (rule group_sums_with_keys [symmetric])
  also have "\<dots> = sum_list (map ?S ?keys)"
    by (simp add: sum_numbers_map [of "\<lambda>r. r ! ?t"])
  finally have sd: "column_sum (rows_with_keys df group_columns) ''total_venta'' = sum_list (map ?S ?keys)" .
  have "\<bar>sum_list (map (\<lambda>key. round_to 2 (?S key)) ?keys) - sum_list (map ?S ?keys)\<bar>
          \<le> of_nat (length ?keys) * (1 / (2 * 10 ^ 2))"
    by (rule sum_list_close) (rule round_to_close)
  also have "\<dots> \<le> 1 / 100 * of_nat (length ?keys)" by simp
  finally show ?thesis using sa sd ra by simp
qed

lemma rows_with_keys_no_missing: "no_missing df cs \<Longrightarrow> rows_with_keys df cs = df"
  by (auto simp: no_missing_def rows_with_keys_def list_all_iff split: sum.splits)

lemma aggregated_sum_without_missing_keys:
  assumes "aggregate_data df = Inr agg" and "no_missing df group_columns"
  shows "\<bar>column_sum agg ''total_venta'' - column_sum df ''total_venta''\<bar>
           \<le> 1 / 100 * of_nat (length (rows agg))"
  using aggregated_sum_of_rows_with_keys [OF assms(1)] rows_with_keys_no_missing [OF assms(2)]
  by simp

text \<open>
  Claim C3 (aggregation sum preservation: for any cleaned batch the sum of \<open>total_venta\<close>
  over the aggregated rows is within 0.01 times the number of groups of the sum over the
  cleaned rows): the code groups with \<open>df.groupby([...])\<close> and its default \<open>dropna=True\<close>, so
  a row without \<open>categoria\<close> or \<open>region\<close>, which \<open>clean_data\<close> keeps (neither is one of its
  critical columns), is in no group and its \<open>total_venta\<close> is lost. On the batch below, two
  sales of 100 and 200, the second without \<open>region\<close>, cleaning keeps both rows and the
  rollup has one group with \<open>total_venta\<close> 100: the sums are 100 against 300.
\<close>

theorem aggregation_drops_missing_region:
  "clean_data demo_library missing_region_batch =
     Inr \<lparr>cleaned = missing_region_cleaned, duplicates_removed = 0, nulls_removed = 0,
          invalid_qty_removed = 0, invalid_price_removed = 0, outliers_removed = 0\<rparr>
   \<and> aggregate_data missing_region_cleaned = Inr missing_region_aggregated
   \<and> column_sum missing_region_aggregated ''total_venta'' = 100
   \<and> column_sum missing_region_cleaned ''total_venta'' = 300
   \<and> \<not> \<bar>column_sum missing_region_aggregated ''total_venta''
          - column_sum missing_region_cleaned ''total_venta''\<bar>
         \<le> 1 / 100 * of_nat (length (rows missing_region_aggregated))"
proof -
  have s1: "column_sum missing_region_aggregated ''total_venta'' = 100"
    by (simp add: column_sum_def missing_region_aggregated_def aggregated_columns_def)
  have s2: "column_sum missing_region_cleaned ''total_venta'' = 300"
    by (simp add: column_sum_def missing_region_cleaned_def sales_columns_def)
  have n: "length (rows missing_region_aggregated) = 1"
    by (simp add: missing_region_aggregated_def)
  show ?thesis using missing_region_cleaning missing_region_rollup by (simp add: s1 s2 n)
qed

text \<open>
  Claim C10 (\<open>num_transacciones\<close> is the number of rows of the group): the code computes it
  as \<open>'id': 'count'\<close>, the number of rows of the group whose \<open>id\<close> is not missing. On the
  batch below the first group has two rows, one of them without \<open>id\<close>, and its
  \<open>num_transacciones\<close> is 1.
\<close>

theorem num_transacciones_skips_missing_id:
  "clean_data demo_library missing_id_batch =
     Inr \<lparr>cleaned = missing_id_cleaned, duplicates_removed = 0, nulls_removed = 0,
          invalid_qty_removed = 0, invalid_price_removed = 0, outliers_removed = 0\<rparr>
   \<and> aggregate_data missing_id_cleaned = Inr missing_id_aggregated
   \<and> take 4 (hd (rows missing_id_aggregated))
       = [Date 20230101, Str ''Laptop'', Str ''Computadoras'', Str ''Norte'']
   \<and> length (group_rows [1, 2, 3, 4] (rows missing_id_cleaned)
               [Date 20230101, Str ''Laptop'', Str ''Computadoras'', Str ''Norte'']) = 2
   \<and> hd (rows missing_id_aggregated) ! 8 = Num 1"
  using missing_id_cleaning missing_id_rollup
  by (simp add: missing_id_aggregated_def) (simp add: missing_id_cleaned_def group_rows_def key_of_def)

lemma num_transacciones_counts_ids:
  assumes agg: "aggregate_data df = Inr agg"
    and pk: "positions (columns df) group_columns = Inr ks"
    and i: "col_pos (columns df) ''id'' = Some i"
    and row: "row \<in> set (rows agg)"
  shows "row ! 8 = Num (of_nat (length (filter (\<lambda>r. \<not> isnull (r ! i)) (group_rows ks (rows df) (take 4 row)))))"
proof -
  from aggregate_data_parts [OF agg] pk obtain vs where
    pv: "positions (columns df) value_columns = Inr vs"
    and ra: "rows agg = map (aggregate_group ks vs (rows df)) (group_keys ks (rows df))"
    by (metis Inr_inject)
  have lk: "length ks = 4" using positions_length [OF pk] by (simp add: group_columns_def)
  have iv: "vs ! 4 = i" using positions_nth [OF pv, of 4] i by (simp add: value_columns_def)
  from row ra obtain key where key: "key \<in> set (group_keys ks (rows df))"
    and r: "row = aggregate_group ks vs (rows df) key"
    by auto
  have l: "length key = 4" using group_keys_length [OF key] lk by simp
  show ?thesis
    unfolding r aggregate_group_nth(2) [OF l] aggregate_group_nth(3) [OF l]
    by (simp add: agg_count_def iv filter_map comp_def)
qed

end
